theory Spec2Isabelle
  imports Complex_Main
begin

section \<open>Scalars, rows and frames\<close>

text \<open>
  The pipelines under \<^verbatim>\<open>src/data/pipelines\<close> hold their data in pandas frames built
  from lists of Python dicts (\<^verbatim>\<open>div.__dict__\<close>, the JSON objects of the IPO endpoint, the
  dicts built for ticker events). A row is the dict: an association list from column
  names to cells, read with \<open>get\<close>; a key that a row does not have reads as \<open>Null\<close>,
  as the frame constructor fills it with NaN. A frame is the list of its rows, in order.

  Exceptions of the Python code are values of \<open>error\<close>; a computation that may raise
  returns \<open>error + 'a\<close> with \<open>Inl\<close> the exception.
\<close>

datatype error = KeyError | ValueError | TypeError | ApiError

datatype cell = Null | Str string | Num real | Ts int | Obj "(string \<times> cell) list"

type_synonym row = "(string \<times> cell) list"

type_synonym frame = "row list"

definition get :: "row \<Rightarrow> string \<Rightarrow> cell" where
  "get r c = (case map_of r c of None \<Rightarrow> Null | Some v \<Rightarrow> v)"

text \<open>Storing into a key the row has; a row without the key is left as it is.\<close>

fun put :: "row \<Rightarrow> string \<Rightarrow> cell \<Rightarrow> row" where
  "put [] c v = []"
| "put ((k, x) # r) c v = (if k = c then (k, v) # r else (k, x) # put r c v)"

text \<open>\<^verbatim>\<open>c in df.columns\<close>: some row has the key. \<^verbatim>\<open>df.empty\<close>: no row, or no column.\<close>

definition has_column :: "frame \<Rightarrow> string \<Rightarrow> bool" where
  "has_column df c = list_ex (\<lambda>r. c \<in> set (map fst r)) df"

definition df_empty :: "frame \<Rightarrow> bool" where
  "df_empty df = list_all (\<lambda>r. r = []) df"

definition column :: "frame \<Rightarrow> string \<Rightarrow> cell list" where
  "column df c = map (\<lambda>r. get r c) df"

section \<open>Dates\<close>

text \<open>
  A timestamp cell \<open>Ts n\<close> holds a calendar day as its proleptic Gregorian ordinal
  (day 1 is 0001-01-01), the number that Python's \<^verbatim>\<open>datetime\<close> computes with; the vendor's
  date fields carry no time of day. \<open>ymd2ord\<close> and \<open>ord2ymd\<close> follow
  \<^verbatim>\<open>_ymd2ord\<close> and \<^verbatim>\<open>_ord2ymd\<close> of the standard library line by line.
  Subtracting \<^verbatim>\<open>timedelta(days=7)\<close> is subtracting 7 from the ordinal.
\<close>

definition is_leap :: "int \<Rightarrow> bool" where
  "is_leap y = (y mod 4 = 0 \<and> (y mod 100 \<noteq> 0 \<or> y mod 400 = 0))"

definition DAYS_IN_MONTH :: "int list" where
  "DAYS_IN_MONTH = [-1, 31, 28, 31, 30, 31, 30, 31, 31, 30, 31, 30, 31]"

definition DAYS_BEFORE_MONTH :: "int list" where
  "DAYS_BEFORE_MONTH = [-1, 0, 31, 59, 90, 120, 151, 181, 212, 243, 273, 304, 334]"

definition days_in_month :: "int \<Rightarrow> int \<Rightarrow> int" where
  "days_in_month y m = (if m = 2 \<and> is_leap y then 29 else DAYS_IN_MONTH ! nat m)"

definition days_before_year :: "int \<Rightarrow> int" where
  "days_before_year year = (let y = year - 1 in y * 365 + y div 4 - y div 100 + y div 400)"

definition days_before_month :: "int \<Rightarrow> int \<Rightarrow> int" where
  "days_before_month y m = DAYS_BEFORE_MONTH ! nat m + (if m > 2 \<and> is_leap y then 1 else 0)"

definition ymd2ord :: "int \<Rightarrow> int \<Rightarrow> int \<Rightarrow> int" where
  "ymd2ord y m d = days_before_year y + days_before_month y m + d"

definition ord2ymd :: "int \<Rightarrow> int \<times> int \<times> int" where
  "ord2ymd ordinal =
     (let n = ordinal - 1;
          n400 = n div 146097; na = n mod 146097;
          n100 = na div 36524; nb = na mod 36524;
          n4 = nb div 1461; nc = nb mod 1461;
          n1 = nc div 365; nd = nc mod 365;
          year = n400 * 400 + 1 + n100 * 100 + n4 * 4 + n1
      in if n1 = 4 \<or> n100 = 4 then (year - 1, 12, 31)
         else
           let leapyear = (n1 = 3 \<and> (n4 \<noteq> 24 \<or> n100 = 3));
               month = (nd + 50) div 32;
               preceding = DAYS_BEFORE_MONTH ! nat month + (if month > 2 \<and> leapyear then 1 else 0)
           in if preceding > nd
              then let month' = month - 1;
                       preceding' = preceding
                         - (DAYS_IN_MONTH ! nat month' + (if month' = 2 \<and> leapyear then 1 else 0))
                   in (year, month', nd - preceding' + 1)
              else (year, month, nd - preceding + 1))"

text \<open>
  Reading and writing dates as text. The pipelines write \<^verbatim>\<open>strftime("%Y-%m-%d")\<close> and read
  with \<^verbatim>\<open>pd.to_datetime\<close>; of the many spellings pandas accepts, the model reads the one
  the vendor sends and \<open>strftime\<close> writes, \<^verbatim>\<open>YYYY-MM-DD\<close>, and refuses the rest.
\<close>

definition digit_of :: "char \<Rightarrow> nat option" where
  "digit_of ch = map_of
     [(CHR ''0'', 0), (CHR ''1'', 1), (CHR ''2'', 2), (CHR ''3'', 3), (CHR ''4'', 4),
      (CHR ''5'', 5), (CHR ''6'', 6), (CHR ''7'', 7), (CHR ''8'', 8), (CHR ''9'', 9)] ch"

fun number_of :: "nat \<Rightarrow> string \<Rightarrow> nat option" where
  "number_of acc [] = Some acc"
| "number_of acc (ch # cs) =
     (case digit_of ch of None \<Rightarrow> None | Some d \<Rightarrow> number_of (10 * acc + d) cs)"

definition parse_date :: "string \<Rightarrow> int option" where
  "parse_date s =
     (if length s = 10 \<and> s ! 4 = CHR ''-'' \<and> s ! 7 = CHR ''-''
      then (case (number_of 0 (take 4 s), number_of 0 (take 2 (drop 5 s)), number_of 0 (drop 8 s)) of
              (Some y, Some m, Some d) \<Rightarrow>
                if 1 \<le> y \<and> 1 \<le> m \<and> m \<le> 12 \<and> 1 \<le> d \<and> int d \<le> days_in_month (int y) (int m)
                then Some (ymd2ord (int y) (int m) (int d)) else None
            | _ \<Rightarrow> None)
      else None)"

definition digit_char :: "nat \<Rightarrow> char" where
  "digit_char d = ''0123456789'' ! d"

definition pad2 :: "nat \<Rightarrow> string" where
  "pad2 n = [digit_char (n div 10 mod 10), digit_char (n mod 10)]"

definition pad4 :: "nat \<Rightarrow> string" where
  "pad4 n = [digit_char (n div 1000 mod 10), digit_char (n div 100 mod 10)] @ pad2 n"

definition strftime :: "int \<Rightarrow> string" where
  "strftime ordinal =
     (case ord2ymd ordinal of (y, m, d) \<Rightarrow> pad4 (nat y) @ ''-'' @ pad2 (nat m) @ ''-'' @ pad2 (nat d))"

text \<open>
  \<^verbatim>\<open>pd.to_datetime\<close> on one cell: a missing value stays missing (NaT), a timestamp is
  kept, text is parsed or raises. A number or a nested object in a date column is
  refused here (pandas would read a number as nanoseconds since 1970; no field of the
  vendor's that the pipelines convert holds one).
\<close>

fun to_datetime :: "cell \<Rightarrow> error + cell" where
  "to_datetime Null = Inr Null"
| "to_datetime (Ts t) = Inr (Ts t)"
| "to_datetime (Str s) = (case parse_date s of None \<Rightarrow> Inl ValueError | Some t \<Rightarrow> Inr (Ts t))"
| "to_datetime (Num x) = Inl TypeError"
| "to_datetime (Obj kv) = Inl TypeError"

text \<open>\<^verbatim>\<open>pd.to_datetime(df[c])\<close>, cell by cell, and \<^verbatim>\<open>df[c] = pd.to_datetime(df[c])\<close>.\<close>

fun series_to_datetime :: "cell list \<Rightarrow> error + cell list" where
  "series_to_datetime [] = Inr []"
| "series_to_datetime (v # vs) =
     (case to_datetime v of
        Inl e \<Rightarrow> Inl e
      | Inr t \<Rightarrow> (case series_to_datetime vs of Inl e \<Rightarrow> Inl e | Inr ts \<Rightarrow> Inr (t # ts)))"

fun column_to_datetime :: "string \<Rightarrow> frame \<Rightarrow> error + frame" where
  "column_to_datetime c [] = Inr []"
| "column_to_datetime c (r # rs) =
     (case to_datetime (get r c) of
        Inl e \<Rightarrow> Inl e
      | Inr t \<Rightarrow> (case column_to_datetime c rs of Inl e \<Rightarrow> Inl e | Inr rs' \<Rightarrow> Inr (put r c t # rs')))"

text \<open>\<^verbatim>\<open>Series.max()\<close> skips missing values and is NaT when nothing is left.\<close>

fun timestamps :: "cell list \<Rightarrow> int list" where
  "timestamps [] = []"
| "timestamps (Ts t # vs) = t # timestamps vs"
| "timestamps (v # vs) = timestamps vs"

definition series_max :: "cell list \<Rightarrow> cell" where
  "series_max vs = (case timestamps vs of [] \<Rightarrow> Null | t # ts \<Rightarrow> Ts (fold max ts t))"


section \<open>Frame operations\<close>

text \<open>
  \<^verbatim>\<open>df.drop_duplicates(subset=cols)\<close> keeps the default \<^verbatim>\<open>keep="first"\<close>: going down
  the frame, a row is dropped when an earlier row has the same values in the columns of
  \<^verbatim>\<open>subset\<close> (missing values count as equal). \<open>keep_first\<close> carries the keys seen so
  far. A column of \<^verbatim>\<open>subset\<close> that the frame does not have raises \<^verbatim>\<open>KeyError\<close>.
  \<^verbatim>\<open>pd.concat([a, b])\<close> is \<open>a @ b\<close>.
\<close>

definition key_of :: "string list \<Rightarrow> row \<Rightarrow> cell list" where
  "key_of cols r = map (get r) cols"

fun keep_first :: "('r \<Rightarrow> 'k) \<Rightarrow> 'k list \<Rightarrow> 'r list \<Rightarrow> 'r list" where
  "keep_first K seen [] = []"
| "keep_first K seen (r # rs) =
     (if K r \<in> set seen then keep_first K seen rs else r # keep_first K (K r # seen) rs)"

definition drop_duplicates :: "string list \<Rightarrow> frame \<Rightarrow> error + frame" where
  "drop_duplicates cols df =
     (if list_all (has_column df) cols then Inr (keep_first (key_of cols) [] df)
      else Inl KeyError)"

text \<open>A series: \<^verbatim>\<open>.dropna()\<close>, \<^verbatim>\<open>.drop_duplicates().tolist()\<close> and \<^verbatim>\<open>.unique()\<close>.\<close>

definition dropna :: "cell list \<Rightarrow> cell list" where
  "dropna vs = filter (\<lambda>v. v \<noteq> Null) vs"

definition unique :: "cell list \<Rightarrow> cell list" where
  "unique vs = keep_first (\<lambda>v. v) [] vs"

section \<open>The snapshot file and the vendor\<close>

text \<open>
  The snapshot on disk: no file, a file that \<^verbatim>\<open>pd.read_parquet\<close> raises on, or a file
  holding a frame. Every pipeline opens with the same lines:
  \<^verbatim>\<open>
    existing = None
    if os.path.exists(output_path):
        try: existing = pd.read_parquet(output_path)
        except Exception as e: existing = None
  \<close>
\<close>

datatype parquet = NoFile | Unreadable | Parquet frame

definition read_existing :: "parquet \<Rightarrow> frame option" where
  "read_existing disk =
     (case disk of NoFile \<Rightarrow> None | Unreadable \<Rightarrow> None | Parquet df \<Rightarrow> Some df)"

text \<open>
  \<^verbatim>\<open>connector.client.list_dividends(...)\<close> and its siblings return a paginated iterator: it
  yields items and then either ends or raises (a page request failed). An item that is
  falsy (\<open>None\<close> here) is stepped over by \<^verbatim>\<open>if div:\<close>.

  The vendor is a function from the request to the feed it answers with. A run records
  the requests it makes: the entity asked for and the lower bound on the watermark date
  that was sent (\<open>None\<close>: no bound, the full history).
\<close>

datatype feed = Exhausted | Raises error | Yield "row option" feed

type_synonym request = "cell \<times> string option"

type_synonym vendor = "cell \<Rightarrow> string option \<Rightarrow> feed"

record ('a, 'q) outcome =
  returned :: 'a
  snapshot :: parquet
  requests :: "'q list"

text \<open>
  \<^verbatim>\<open>
    try:
        for div in connector.client.list_dividends(...):
            if div:
                new_dividend_records.append(div.__dict__)
    except Exception as e:
        print(e)
  \<close>
  A raise ends the loop for this ticker; what was appended before it stays.
\<close>

fun drain :: "feed \<Rightarrow> frame \<Rightarrow> frame" where
  "drain Exhausted acc = acc"
| "drain (Raises e) acc = acc"
| "drain (Yield obj rest) acc = drain rest (case obj of None \<Rightarrow> acc | Some d \<Rightarrow> acc @ [d])"

fun fetch_batch :: "vendor \<Rightarrow> string option \<Rightarrow> cell list \<Rightarrow> frame \<times> request list
    \<Rightarrow> frame \<times> request list" where
  "fetch_batch api gte [] st = st"
| "fetch_batch api gte (ticker # batch) st =
     fetch_batch api gte batch (drain (api ticker gte) (fst st), snd st @ [(ticker, gte)])"

fun fetch_batches :: "vendor \<Rightarrow> string option \<Rightarrow> cell list list \<Rightarrow> frame \<times> request list
    \<Rightarrow> frame \<times> request list" where
  "fetch_batches api gte [] st = st"
| "fetch_batches api gte (batch # batches) st =
     fetch_batches api gte batches (fetch_batch api gte batch st)"

text \<open>\<^verbatim>\<open>[xs[i : i + 100] for i in range(0, len(xs), 100)]\<close>\<close>

definition batch_size :: nat where
  "batch_size = 100"

definition ticker_batches :: "'a list \<Rightarrow> 'a list list" where
  "ticker_batches xs =
     map (\<lambda>k. take batch_size (drop (batch_size * k) xs))
       [0 ..< (length xs + (batch_size - 1)) div batch_size]"

section \<open>The fetch-from date\<close>

text \<open>
  \<^verbatim>\<open>
    latest = pd.to_datetime(existing[c]).max()
    from_date = (latest - timedelta(days=7)).strftime("%Y-%m-%d")
  \<close>
  \<^verbatim>\<open>existing[c]\<close> raises \<^verbatim>\<open>KeyError\<close> without the column; \<^verbatim>\<open>NaT.strftime\<close> raises
  \<^verbatim>\<open>ValueError\<close>.
\<close>

definition lookback_days :: int where
  "lookback_days = 7"

definition from_date :: "string \<Rightarrow> frame \<Rightarrow> error + string" where
  "from_date c existing =
     (if \<not> has_column existing c then Inl KeyError
      else case series_to_datetime (column existing c) of
             Inl e \<Rightarrow> Inl e
           | Inr dates \<Rightarrow>
               (case series_max dates of
                  Ts latest \<Rightarrow> Inr (strftime (latest - lookback_days))
                | _ \<Rightarrow> Inl ValueError))"

section \<open>Dividends\<close>

text \<open>
  \<^verbatim>\<open>update_dividend_history\<close> of \<^verbatim>\<open>polygon_equities_dividends.py\<close>, run as a script. Its
  inputs are the vendor, the \<^verbatim>\<open>ticker\<close> column of \<^verbatim>\<open>all_ticker_meta.csv\<close> and the snapshot
  file; it returns a frame and leaves a snapshot file. \<open>merge_dividends\<close> is lines 68-97,
  \<open>import_dividends\<close> lines 99-133.
\<close>

definition dividend_subset :: "string list" where
  "dividend_subset = [''ticker'', ''ex_dividend_date'', ''cash_amount'']"

definition merge_dividends :: "frame \<Rightarrow> frame \<Rightarrow> parquet \<Rightarrow> error + frame \<times> parquet" where
  "merge_dividends existing_dividends new_dividend_records disk =
     (if new_dividend_records \<noteq> [] then
        (case (if has_column new_dividend_records ''ex_dividend_date''
               then column_to_datetime ''ex_dividend_date'' new_dividend_records
               else Inr new_dividend_records) of
           Inl e \<Rightarrow> Inl e
         | Inr new_records_df \<Rightarrow>
             if \<not> has_column existing_dividends ''ex_dividend_date'' then Inl KeyError
             else (case column_to_datetime ''ex_dividend_date'' existing_dividends of
                     Inl e \<Rightarrow> Inl e
                   | Inr existing' \<Rightarrow>
                       (case drop_duplicates dividend_subset (existing' @ new_records_df) of
                          Inl e \<Rightarrow> Inl e
                        | Inr combined_df \<Rightarrow> Inr (combined_df, Parquet combined_df))))
      else Inr (existing_dividends, disk))"

definition import_dividends :: "vendor \<Rightarrow> cell list \<Rightarrow> parquet \<Rightarrow> (frame, request) outcome" where
  "import_dividends list_dividends all_tickers_list disk =
     (case fetch_batches list_dividends None (ticker_batches all_tickers_list) ([], []) of
        (dividend_history, sent) \<Rightarrow>
          \<lparr>returned = dividend_history,
           snapshot = (if \<not> df_empty dividend_history then Parquet dividend_history else disk),
           requests = sent\<rparr>)"

definition update_dividend_history :: "vendor \<Rightarrow> cell list \<Rightarrow> parquet \<Rightarrow> error + (frame, request) outcome" where
  "update_dividend_history list_dividends all_tickers disk =
     (let all_tickers_list = unique all_tickers in
      case read_existing disk of
        None \<Rightarrow> Inr (import_dividends list_dividends all_tickers_list disk)
      | Some existing_dividends \<Rightarrow>
          if df_empty existing_dividends
          then Inr (import_dividends list_dividends all_tickers_list disk)
          else (case from_date ''ex_dividend_date'' existing_dividends of
                  Inl e \<Rightarrow> Inl e
                | Inr fd \<Rightarrow>
                    (case fetch_batches list_dividends (Some fd)
                            (ticker_batches all_tickers_list) ([], []) of
                       (new_dividend_records, sent) \<Rightarrow>
                         (case merge_dividends existing_dividends new_dividend_records disk of
                            Inl e \<Rightarrow> Inl e
                          | Inr (df, disk') \<Rightarrow>
                              Inr \<lparr>returned = df, snapshot = disk', requests = sent\<rparr>))))"


section \<open>Splits\<close>

text \<open>
  \<^verbatim>\<open>update_split_history\<close> of \<^verbatim>\<open>polygon_equities_splits.py\<close>: the dividends pipeline over
  \<^verbatim>\<open>execution_date\<close>, with a \<^verbatim>\<open>ratio\<close> column computed for the fetched rows. The float
  division of two cells is the parameter \<open>truediv\<close>; \<^verbatim>\<open>df[c]\<close> raises without the column.
\<close>

definition assign :: "row \<Rightarrow> string \<Rightarrow> cell \<Rightarrow> row" where
  "assign r c v = (if c \<in> set (map fst r) then put r c v else r @ [(c, v)])"

definition with_ratio :: "(cell \<Rightarrow> cell \<Rightarrow> cell) \<Rightarrow> frame \<Rightarrow> error + frame" where
  "with_ratio truediv df =
     (if has_column df ''split_to'' \<and> has_column df ''split_from''
      then Inr (map (\<lambda>r. assign r ''ratio'' (truediv (get r ''split_to'') (get r ''split_from''))) df)
      else Inl KeyError)"

definition split_subset :: "string list" where
  "split_subset = [''ticker'', ''execution_date'', ''split_from'', ''split_to'']"

definition merge_splits :: "(cell \<Rightarrow> cell \<Rightarrow> cell) \<Rightarrow> frame \<Rightarrow> frame \<Rightarrow> parquet
    \<Rightarrow> error + frame \<times> parquet" where
  "merge_splits truediv existing_splits new_split_records disk =
     (if new_split_records \<noteq> [] then
        (case with_ratio truediv new_split_records of
           Inl e \<Rightarrow> Inl e
         | Inr with_ratios \<Rightarrow>
            (case (if has_column with_ratios ''execution_date''
                   then column_to_datetime ''execution_date'' with_ratios
                   else Inr with_ratios) of
               Inl e \<Rightarrow> Inl e
             | Inr new_records_df \<Rightarrow>
                 if \<not> has_column existing_splits ''execution_date'' then Inl KeyError
                 else (case column_to_datetime ''execution_date'' existing_splits of
                         Inl e \<Rightarrow> Inl e
                       | Inr existing' \<Rightarrow>
                           (case drop_duplicates split_subset (existing' @ new_records_df) of
                              Inl e \<Rightarrow> Inl e
                            | Inr combined_df \<Rightarrow> Inr (combined_df, Parquet combined_df)))))
      else Inr (existing_splits, disk))"

definition import_splits :: "(cell \<Rightarrow> cell \<Rightarrow> cell) \<Rightarrow> vendor \<Rightarrow> cell list \<Rightarrow> parquet
    \<Rightarrow> error + (frame, request) outcome" where
  "import_splits truediv list_splits all_tickers_list disk =
     (case fetch_batches list_splits None (ticker_batches all_tickers_list) ([], []) of
        (split_history, sent) \<Rightarrow>
          if \<not> df_empty split_history
          then (case with_ratio truediv split_history of
                  Inl e \<Rightarrow> Inl e
                | Inr split_history_df \<Rightarrow>
                    Inr \<lparr>returned = split_history_df, snapshot = Parquet split_history_df,
                         requests = sent\<rparr>)
          else Inr \<lparr>returned = split_history, snapshot = disk, requests = sent\<rparr>)"

definition update_split_history :: "(cell \<Rightarrow> cell \<Rightarrow> cell) \<Rightarrow> vendor \<Rightarrow> cell list \<Rightarrow> parquet
    \<Rightarrow> error + (frame, request) outcome" where
  "update_split_history truediv list_splits all_tickers disk =
     (let all_tickers_list = unique all_tickers in
      case read_existing disk of
        None \<Rightarrow> import_splits truediv list_splits all_tickers_list disk
      | Some existing_splits \<Rightarrow>
          if df_empty existing_splits
          then import_splits truediv list_splits all_tickers_list disk
          else (case from_date ''execution_date'' existing_splits of
                  Inl e \<Rightarrow> Inl e
                | Inr fd \<Rightarrow>
                    (case fetch_batches list_splits (Some fd)
                            (ticker_batches all_tickers_list) ([], []) of
                       (new_split_records, sent) \<Rightarrow>
                         (case merge_splits truediv existing_splits new_split_records disk of
                            Inl e \<Rightarrow> Inl e
                          | Inr (df, disk') \<Rightarrow>
                              Inr \<lparr>returned = df, snapshot = disk', requests = sent\<rparr>))))"

section \<open>Ticker events\<close>

text \<open>
  \<^verbatim>\<open>update_ticker_events\<close> of \<^verbatim>\<open>polygon_equities_ticker_events.py\<close>.
  \<^verbatim>\<open>connector.client.get_ticker_events(ticker=figi)\<close> is one call: it raises, or returns
  nothing usable (a falsy object, or one whose \<^verbatim>\<open>events\<close> is absent or empty, \<open>events = []\<close>
  here), or returns the entity with its list of event dicts. No date is sent to the vendor.
\<close>

record ticker_events =
  name :: cell
  composite_figi :: cell
  cik :: cell
  events :: "row list"

datatype events_reply = Failed error | Nothing | Events ticker_events

type_synonym events_vendor = "cell \<Rightarrow> events_reply"

text \<open>\<^verbatim>\<open>row[k]\<close> on a dict and on whatever a cell holds.\<close>

definition item :: "row \<Rightarrow> string \<Rightarrow> error + cell" where
  "item r k = (case map_of r k of None \<Rightarrow> Inl KeyError | Some v \<Rightarrow> Inr v)"

definition subitem :: "cell \<Rightarrow> string \<Rightarrow> error + cell" where
  "subitem v k = (case v of Obj kv \<Rightarrow> item kv k | _ \<Rightarrow> Inl TypeError)"

text \<open>The dict built for one event, lines 79-90 and 152-161.\<close>

definition collection_dict :: "ticker_events \<Rightarrow> row \<Rightarrow> error + row" where
  "collection_dict ev row =
     (case item row ''ticker_change'' of
        Inl e \<Rightarrow> Inl e
      | Inr change \<Rightarrow>
         (case subitem change ''ticker'' of
            Inl e \<Rightarrow> Inl e
          | Inr new_ticker \<Rightarrow>
             (case item row ''type'' of
                Inl e \<Rightarrow> Inl e
              | Inr ty \<Rightarrow>
                 (case item row ''date'' of
                    Inl e \<Rightarrow> Inl e
                  | Inr d \<Rightarrow>
                      Inr [(''name'', name ev), (''composite_figi'', composite_figi ev),
                           (''cik'', cik ev), (''new_ticker'', new_ticker),
                           (''type'', ty), (''date'', d)]))))"

text \<open>\<^verbatim>\<open>a >= b\<close> on timestamps; a comparison with NaT is false.\<close>

definition on_or_after :: "cell \<Rightarrow> cell \<Rightarrow> bool" where
  "on_or_after a b = (case a of Ts x \<Rightarrow> (case b of Ts y \<Rightarrow> y \<le> x | _ \<Rightarrow> False) | _ \<Rightarrow> False)"

text \<open>
  Lines 72-90, the loop over \<^verbatim>\<open>events.events\<close> of the incremental path: an event is kept
  when \<^verbatim>\<open>event_date >= pd.to_datetime(from_date) or figi not in processed_figis\<close>. Any
  raise leaves the loop and, with it, the whole \<^verbatim>\<open>collection\<close> of this FIGI.
\<close>

fun new_events :: "ticker_events \<Rightarrow> cell \<Rightarrow> string \<Rightarrow> cell list \<Rightarrow> row list \<Rightarrow> error + frame" where
  "new_events ev figi fd processed_figis [] = Inr []"
| "new_events ev figi fd processed_figis (row # rows) =
     (case item row ''date'' of
        Inl e \<Rightarrow> Inl e
      | Inr d \<Rightarrow>
         (case to_datetime d of
            Inl e \<Rightarrow> Inl e
          | Inr event_date \<Rightarrow>
             (case to_datetime (Str fd) of
                Inl e \<Rightarrow> Inl e
              | Inr bound \<Rightarrow>
                  if on_or_after event_date bound \<or> figi \<notin> set processed_figis
                  then (case collection_dict ev row of
                          Inl e \<Rightarrow> Inl e
                        | Inr d \<Rightarrow>
                            (case new_events ev figi fd processed_figis rows of
                               Inl e \<Rightarrow> Inl e
                             | Inr ds \<Rightarrow> Inr (d # ds)))
                  else new_events ev figi fd processed_figis rows)))"

text \<open>Line 74 on its own, \<^verbatim>\<open>event_date = pd.to_datetime(row["date"])\<close>: the date of one event, or the exception.\<close>

definition event_date :: "row \<Rightarrow> error + cell" where
  "event_date row = (case item row ''date'' of Inl e \<Rightarrow> Inl e | Inr d \<Rightarrow> to_datetime d)"

text \<open>Lines 151-161, the same loop of the initial import: every event is kept.\<close>

fun all_events :: "ticker_events \<Rightarrow> row list \<Rightarrow> error + frame" where
  "all_events ev [] = Inr []"
| "all_events ev (row # rows) =
     (case collection_dict ev row of
        Inl e \<Rightarrow> Inl e
      | Inr d \<Rightarrow> (case all_events ev rows of Inl e \<Rightarrow> Inl e | Inr ds \<Rightarrow> Inr (d # ds)))"

text \<open>
  One FIGI, lines 65-95 (and 144-166 with \<open>collect = all_events\<close>): the \<^verbatim>\<open>try\<close> block.
  \<open>collect\<close> is the loop over the events.
\<close>

definition figi_events :: "events_vendor \<Rightarrow> (ticker_events \<Rightarrow> cell \<Rightarrow> row list \<Rightarrow> error + frame)
    \<Rightarrow> cell \<Rightarrow> frame" where
  "figi_events get_ticker_events collect figi =
     (case get_ticker_events figi of
        Failed e \<Rightarrow> []
      | Nothing \<Rightarrow> []
      | Events ev \<Rightarrow>
          if events ev = [] then []
          else (case collect ev figi (events ev) of Inl e \<Rightarrow> [] | Inr collection \<Rightarrow> collection))"

fun figi_batch :: "events_vendor \<Rightarrow> (ticker_events \<Rightarrow> cell \<Rightarrow> row list \<Rightarrow> error + frame)
    \<Rightarrow> cell list \<Rightarrow> frame \<times> request list \<Rightarrow> frame \<times> request list" where
  "figi_batch api collect [] st = st"
| "figi_batch api collect (figi # batch) st =
     figi_batch api collect batch (fst st @ figi_events api collect figi, snd st @ [(figi, None)])"

fun figi_batches :: "events_vendor \<Rightarrow> (ticker_events \<Rightarrow> cell \<Rightarrow> row list \<Rightarrow> error + frame)
    \<Rightarrow> cell list list \<Rightarrow> frame \<times> request list \<Rightarrow> frame \<times> request list" where
  "figi_batches api collect [] st = st"
| "figi_batches api collect (batch # batches) st =
     figi_batches api collect batches (figi_batch api collect batch st)"

definition event_subset :: "string list" where
  "event_subset = [''composite_figi'', ''type'', ''date'', ''new_ticker'']"

text \<open>Lines 100-126.\<close>

definition merge_events :: "frame \<Rightarrow> frame \<Rightarrow> parquet \<Rightarrow> error + frame \<times> parquet" where
  "merge_events existing_events event_history disk =
     (if event_history \<noteq> [] then
        if \<not> has_column event_history ''date'' then Inl KeyError
        else (case column_to_datetime ''date'' event_history of
           Inl e \<Rightarrow> Inl e
         | Inr new_records_df \<Rightarrow>
             if \<not> has_column existing_events ''date'' then Inl KeyError
             else (case column_to_datetime ''date'' existing_events of
                     Inl e \<Rightarrow> Inl e
                   | Inr existing' \<Rightarrow>
                       (case drop_duplicates event_subset (existing' @ new_records_df) of
                          Inl e \<Rightarrow> Inl e
                        | Inr combined_df \<Rightarrow> Inr (combined_df, Parquet combined_df))))
      else Inr (existing_events, disk))"

text \<open>Lines 171-192.\<close>

definition import_events :: "frame \<Rightarrow> parquet \<Rightarrow> error + frame \<times> parquet" where
  "import_events event_history disk =
     (if \<not> df_empty event_history then
        if \<not> has_column event_history ''date'' then Inl KeyError
        else (case column_to_datetime ''date'' event_history of
                Inl e \<Rightarrow> Inl e
              | Inr dated \<Rightarrow>
                  (case drop_duplicates event_subset dated of
                     Inl e \<Rightarrow> Inl e
                   | Inr event_history_df \<Rightarrow> Inr (event_history_df, Parquet event_history_df)))
      else Inr (event_history, disk))"

definition initial_events :: "events_vendor \<Rightarrow> cell list \<Rightarrow> parquet \<Rightarrow> error + (frame, request) outcome" where
  "initial_events api figis disk =
     (case figi_batches api (\<lambda>ev figi. all_events ev) (ticker_batches figis) ([], []) of
        (event_history, sent) \<Rightarrow>
          (case import_events event_history disk of
             Inl e \<Rightarrow> Inl e
           | Inr (df, disk') \<Rightarrow> Inr \<lparr>returned = df, snapshot = disk', requests = sent\<rparr>))"

definition update_ticker_events :: "events_vendor \<Rightarrow> cell list \<Rightarrow> parquet \<Rightarrow> error + (frame, request) outcome" where
  "update_ticker_events api all_figis disk =
     (let figis = unique (dropna all_figis) in
      case read_existing disk of
        None \<Rightarrow> initial_events api figis disk
      | Some existing_events \<Rightarrow>
          if df_empty existing_events then initial_events api figis disk
          else (case from_date ''date'' existing_events of
                  Inl e \<Rightarrow> Inl e
                | Inr fd \<Rightarrow>
                    if \<not> has_column existing_events ''composite_figi'' then Inl KeyError
                    else
                      let processed_figis = unique (dropna (column existing_events ''composite_figi''))
                      in (case figi_batches api (\<lambda>ev figi. new_events ev figi fd processed_figis)
                                 (ticker_batches figis) ([], []) of
                            (event_history, sent) \<Rightarrow>
                              (case merge_events existing_events event_history disk of
                                 Inl e \<Rightarrow> Inl e
                               | Inr (df, disk') \<Rightarrow>
                                   Inr \<lparr>returned = df, snapshot = disk', requests = sent\<rparr>))))"


section \<open>IPOs\<close>

text \<open>
  \<^verbatim>\<open>update_ipo_history\<close> of \<^verbatim>\<open>polygon_equities_ipos.py\<close>. \<^verbatim>\<open>get_ipos(params)\<close> raises
  (the request or the JSON decoding failed), returns \<^verbatim>\<open>None\<close> (a status other than 200) or
  returns the JSON object, of which the code reads \<^verbatim>\<open>results\<close> (\<open>[]\<close> here when absent
  or empty) and \<^verbatim>\<open>next_url\<close> (the empty text when absent or empty). A request is the
  \<^verbatim>\<open>modified_date.gte\<close> parameter and the \<^verbatim>\<open>cursor\<close> parameter, each sent or not.
\<close>

datatype ipo_reply = Broken error | Refused | Json frame string

type_synonym ipo_request = "string option \<times> string option"

type_synonym ipo_vendor = "string option \<Rightarrow> string option \<Rightarrow> ipo_reply"

text \<open>
  \<^verbatim>\<open>url.split("cursor=")[1].split("&")[0]\<close>: \<open>after pat s\<close> is what follows the first
  \<open>pat\<close> in \<open>s\<close> (\<open>None\<close>: \<^verbatim>\<open>pat not in s\<close>), \<open>before pat s\<close> what precedes it.
\<close>

fun after :: "string \<Rightarrow> string \<Rightarrow> string option" where
  "after pat [] = (if pat = [] then Some [] else None)"
| "after pat (ch # s) =
     (if take (length pat) (ch # s) = pat then Some (drop (length pat) (ch # s)) else after pat s)"

fun before :: "string \<Rightarrow> string \<Rightarrow> string" where
  "before pat [] = []"
| "before pat (ch # s) = (if take (length pat) (ch # s) = pat then [] else ch # before pat s)"

definition max_pages :: nat where
  "max_pages = 100"

text \<open>
  The \<^verbatim>\<open>while page_count < max_pages\<close> loop, lines 76-109 and 163-197, with the pages that
  are left as the first counter. \<open>params_cursor\<close> is \<^verbatim>\<open>params["cursor"]\<close>, which an empty
  \<^verbatim>\<open>pagination_cursor\<close> leaves as it was. The result says whether the loop was left by
  an exception.
\<close>

fun ipo_pages :: "ipo_vendor \<Rightarrow> string option \<Rightarrow> nat \<Rightarrow> string option \<Rightarrow> string option
    \<Rightarrow> frame \<times> ipo_request list \<Rightarrow> error option \<times> frame \<times> ipo_request list" where
  "ipo_pages get_ipos gte 0 pagination_cursor params_cursor st = (None, st)"
| "ipo_pages get_ipos gte (Suc left) pagination_cursor params_cursor st =
     (let cursor = (case pagination_cursor of
                      None \<Rightarrow> params_cursor
                    | Some c \<Rightarrow> if c \<noteq> [] then Some c else params_cursor);
          sent = snd st @ [(gte, cursor)]
      in case get_ipos gte cursor of
           Broken e \<Rightarrow> (Some e, fst st, sent)
         | Refused \<Rightarrow> (None, fst st, sent)
         | Json results next_url \<Rightarrow>
             if results = [] then (None, fst st, sent)
             else if next_url \<noteq> [] then
               (case after ''cursor='' next_url of
                  None \<Rightarrow> (None, fst st @ results, sent)
                | Some rest \<Rightarrow>
                    ipo_pages get_ipos gte left (Some (before ''&'' (before ''cursor='' rest)))
                      cursor (fst st @ results, sent))
             else (None, fst st @ results, sent))"

definition date_columns :: "string list" where
  "date_columns = [''modified_date'', ''listing_date'', ''announcement_date'']"

text \<open>Lines 119-124: each date column, in the fetched frame and in the existing one.\<close>

fun convert_both :: "string list \<Rightarrow> frame \<Rightarrow> frame \<Rightarrow> error + frame \<times> frame" where
  "convert_both [] new_records_df existing_ipos = Inr (new_records_df, existing_ipos)"
| "convert_both (col # cols) new_records_df existing_ipos =
     (case (if has_column new_records_df col then column_to_datetime col new_records_df
            else Inr new_records_df) of
        Inl e \<Rightarrow> Inl e
      | Inr new' \<Rightarrow>
         (case (if has_column existing_ipos col then column_to_datetime col existing_ipos
                else Inr existing_ipos) of
            Inl e \<Rightarrow> Inl e
          | Inr existing' \<Rightarrow> convert_both cols new' existing'))"

text \<open>Lines 207-210.\<close>

fun convert_columns :: "string list \<Rightarrow> frame \<Rightarrow> error + frame" where
  "convert_columns [] df = Inr df"
| "convert_columns (col # cols) df =
     (case (if has_column df col then column_to_datetime col df else Inr df) of
        Inl e \<Rightarrow> Inl e
      | Inr df' \<Rightarrow> convert_columns cols df')"

text \<open>Lines 114-146.\<close>

definition merge_ipos :: "frame \<Rightarrow> frame \<Rightarrow> parquet \<Rightarrow> error + frame \<times> parquet" where
  "merge_ipos existing_ipos new_ipo_records disk =
     (if new_ipo_records \<noteq> [] then
        (case convert_both date_columns new_ipo_records existing_ipos of
           Inl e \<Rightarrow> Inl e
         | Inr (new_records_df, existing') \<Rightarrow>
             if has_column new_records_df ''ticker'' \<and> has_column existing' ''ticker''
             then let updated_tickers = unique (column new_records_df ''ticker'');
                      existing_filtered =
                        filter (\<lambda>r. get r ''ticker'' \<notin> set updated_tickers) existing';
                      combined_df = existing_filtered @ new_records_df
                  in Inr (combined_df, Parquet combined_df)
             else Inr (existing', disk))
      else Inr (existing_ipos, disk))"

text \<open>Lines 151-215: an exception while paging is raised again and ends the run.\<close>

definition import_ipos :: "ipo_vendor \<Rightarrow> parquet \<Rightarrow> error + (frame option, ipo_request) outcome" where
  "import_ipos get_ipos disk =
     (case ipo_pages get_ipos None max_pages None None ([], []) of
        (Some e, ipo_history, sent) \<Rightarrow> Inl e
      | (None, ipo_history, sent) \<Rightarrow>
          if \<not> df_empty ipo_history
          then (case convert_columns date_columns ipo_history of
                  Inl e \<Rightarrow> Inl e
                | Inr ipo_history_df \<Rightarrow>
                    Inr \<lparr>returned = Some ipo_history_df, snapshot = Parquet ipo_history_df,
                         requests = sent\<rparr>)
          else Inr \<lparr>returned = Some ipo_history, snapshot = disk, requests = sent\<rparr>)"

text \<open>
  An existing frame that is empty passes neither \<^verbatim>\<open>if\<close> of the function, which then
  returns \<^verbatim>\<open>None\<close> without a request.
\<close>

definition update_ipo_history :: "ipo_vendor \<Rightarrow> parquet
    \<Rightarrow> error + (frame option, ipo_request) outcome" where
  "update_ipo_history get_ipos disk =
     (case read_existing disk of
        None \<Rightarrow> import_ipos get_ipos disk
      | Some existing_ipos \<Rightarrow>
          if \<not> df_empty existing_ipos then
            if has_column existing_ipos ''modified_date'' then
              (case from_date ''modified_date'' existing_ipos of
                 Inl e \<Rightarrow> Inl e
               | Inr fd \<Rightarrow>
                   (case ipo_pages get_ipos (Some fd) max_pages None None ([], []) of
                      (raised, new_ipo_records, sent) \<Rightarrow>
                        (case merge_ipos existing_ipos new_ipo_records disk of
                           Inl e \<Rightarrow> Inl e
                         | Inr (df, disk') \<Rightarrow>
                             Inr \<lparr>returned = Some df, snapshot = disk', requests = sent\<rparr>)))
            else import_ipos get_ipos disk
          else Inr \<lparr>returned = None, snapshot = disk, requests = []\<rparr>)"

section \<open>Fundamentals\<close>




definition fundamental_subset :: "string list" where
  "fundamental_subset = [''ticker'', ''filing_date'', ''fiscal_year'', ''fiscal_period'']"


text \<open>Lines 46-58.\<close>

definition merge_fundamentals :: "frame option \<Rightarrow> frame \<Rightarrow> parquet
    \<Rightarrow> error + frame option \<times> parquet" where
  "merge_fundamentals existing_fundamentals fundamental_records disk =
     (if fundamental_records \<noteq> [] then
        (case existing_fundamentals of
           Some df \<Rightarrow>
             (case drop_duplicates fundamental_subset (df @ fundamental_records) of
                Inl e \<Rightarrow> Inl e
              | Inr combined_df \<Rightarrow> Inr (Some combined_df, Parquet combined_df))
         | None \<Rightarrow> Inr (Some fundamental_records, Parquet fundamental_records))
      else Inr (existing_fundamentals, disk))"


section \<open>What a run fetches\<close>

text \<open>
  The batch that the loops over the tickers leave in \<^verbatim>\<open>new_dividend_records\<close>: the rows
  of each ticker's feed up to its end or its raise, in the order of the tickers. The
  batches of 100 only group the tickers.
\<close>

definition fetched :: "vendor \<Rightarrow> string option \<Rightarrow> cell list \<Rightarrow> frame" where
  "fetched api gte tickers = concat (map (\<lambda>t. drain (api t gte) []) tickers)"

definition fetched_events :: "events_vendor
    \<Rightarrow> (ticker_events \<Rightarrow> cell \<Rightarrow> row list \<Rightarrow> error + frame) \<Rightarrow> cell list \<Rightarrow> frame" where
  "fetched_events api collect figis = concat (map (figi_events api collect) figis)"



text \<open>A row with the date in column \<open>c\<close> read as \<^verbatim>\<open>pd.to_datetime\<close> reads it.\<close>

definition dated :: "string \<Rightarrow> row \<Rightarrow> row" where
  "dated c r = (case to_datetime (get r c) of Inl e \<Rightarrow> r | Inr t \<Rightarrow> put r c t)"


section \<open>Example data\<close>

text \<open>The rows of the scenarios: dividends of one ticker, as the vendor sends them.\<close>

definition aapl_jan :: row where
  "aapl_jan = [(''ticker'', Str ''AAPL''), (''ex_dividend_date'', Str ''2024-01-10''),
               (''cash_amount'', Num 0.24), (''pay_date'', Str ''2024-02-15'')]"

text \<open>
  A stored dividend and the vendor's later version of it: the same ticker, date and
  amount, another pay date. \<open>one_feed\<close> is a vendor that has rows for one ticker only.
  A stored ticker event and a later version of it with another company name.
\<close>

definition aapl_jan_stored :: row where
  "aapl_jan_stored = [(''ticker'', Str ''AAPL''), (''ex_dividend_date'', Ts 738895),
                      (''cash_amount'', Num 0.24), (''pay_date'', Str ''2024-02-15'')]"

definition aapl_jan_revised :: row where
  "aapl_jan_revised = [(''ticker'', Str ''AAPL''), (''ex_dividend_date'', Str ''2024-01-10''),
                       (''cash_amount'', Num 0.24), (''pay_date'', Str ''2024-02-16'')]"

definition one_feed :: "cell \<Rightarrow> row list \<Rightarrow> vendor" where
  "one_feed ticker rows t gte = (if t = ticker then foldr (\<lambda>r f. Yield (Some r) f) rows Exhausted else Exhausted)"

definition event_stored :: row where
  "event_stored = [(''name'', Str ''Meta Platforms''), (''composite_figi'', Str ''BBG000MM2P62''),
                   (''cik'', Str ''0001326801''), (''new_ticker'', Str ''META''),
                   (''type'', Str ''ticker_change''), (''date'', Ts 738315)]"

definition event_revised :: row where
  "event_revised = [(''name'', Str ''Meta Platforms, Inc.''), (''composite_figi'', Str ''BBG000MM2P62''),
                   (''cik'', Str ''0001326801''), (''new_ticker'', Str ''META''),
                   (''type'', Str ''ticker_change''), (''date'', Str ''2022-06-09'')]"

text \<open>
  The April dividend of the scenario, as fetched and as stored. IPO rows: one stored, and
  two that the vendor sends for one ticker (its entry was modified twice), as fetched and
  with their dates read. \<open>one_page\<close> is an IPO endpoint that answers with a single page.
\<close>

definition aapl_apr :: row where
  "aapl_apr = [(''ticker'', Str ''AAPL''), (''ex_dividend_date'', Str ''2024-04-10''),
               (''cash_amount'', Num 0.25), (''pay_date'', Str ''2024-05-16'')]"

definition aapl_apr_stored :: row where
  "aapl_apr_stored = [(''ticker'', Str ''AAPL''), (''ex_dividend_date'', Ts 738986),
               (''cash_amount'', Num 0.25), (''pay_date'', Str ''2024-05-16'')]"

definition ipo_stored :: row where
  "ipo_stored = [(''ticker'', Str ''RDDT''), (''modified_date'', Ts 738966),
                 (''listing_date'', Ts 738966), (''ipo_status'', Str ''history'')]"

definition ipo_pending :: row where
  "ipo_pending = [(''ticker'', Str ''IBTA''), (''modified_date'', Str ''2024-04-01''),
                  (''listing_date'', Str ''2024-04-18''), (''ipo_status'', Str ''pending'')]"

definition ipo_priced :: row where
  "ipo_priced = [(''ticker'', Str ''IBTA''), (''modified_date'', Str ''2024-04-02''),
                  (''listing_date'', Str ''2024-04-18''), (''ipo_status'', Str ''new'')]"

definition ipo_pending_dated :: row where
  "ipo_pending_dated = [(''ticker'', Str ''IBTA''), (''modified_date'', Ts 738977),
                  (''listing_date'', Ts 738994), (''ipo_status'', Str ''pending'')]"

definition ipo_priced_dated :: row where
  "ipo_priced_dated = [(''ticker'', Str ''IBTA''), (''modified_date'', Ts 738978),
                  (''listing_date'', Ts 738994), (''ipo_status'', Str ''new'')]"

definition one_page :: "frame \<Rightarrow> ipo_vendor" where
  "one_page results gte cursor = Json results []"

text \<open>
  The condition of the \<^verbatim>\<open>else\<close> branch of
  \<^verbatim>\<open>if existing is not None and not existing.empty\<close>: no file, an unreadable file, or a
  frame that is empty.
\<close>

definition no_snapshot :: "parquet \<Rightarrow> bool" where
  "no_snapshot disk = (case read_existing disk of None \<Rightarrow> True | Some existing \<Rightarrow> df_empty existing)"

text \<open>
  The vendor's answer for one FIGI: three events, the last one twice. \<open>fb_stored\<close> is the
  first of them as the pipeline stores it.
\<close>

definition meta_change :: row where
  "meta_change = [(''date'', Str ''2022-06-09''), (''type'', Str ''ticker_change''),
                  (''ticker_change'', Obj [(''ticker'', Str ''META'')])]"

definition fb_listing :: row where
  "fb_listing = [(''date'', Str ''2012-05-18''), (''type'', Str ''ticker_change''),
                 (''ticker_change'', Obj [(''ticker'', Str ''FB'')])]"

definition meta_events :: ticker_events where
  "meta_events = \<lparr>name = Str ''Meta Platforms'', composite_figi = Str ''BBG000MM2P62'',
                   cik = Str ''0001326801'', events = [fb_listing, meta_change, meta_change]\<rparr>"

definition events_of_meta :: events_vendor where
  "events_of_meta figi = (if figi = Str ''BBG000MM2P62'' then Events meta_events else Nothing)"

definition fb_stored :: row where
  "fb_stored = [(''name'', Str ''Meta Platforms''), (''composite_figi'', Str ''BBG000MM2P62''),
                (''cik'', Str ''0001326801''), (''new_ticker'', Str ''FB''),
                (''type'', Str ''ticker_change''), (''date'', Ts 734641)]"











section \<open>Lemmas: the fetch loops\<close>

lemma drain_acc: "drain f acc = acc @ drain f []"
proof (induction f arbitrary: acc)
  case (Yield obj rest)
  show ?case
  proof (cases obj)
    case None
    then show ?thesis using Yield.IH[of acc] by simp
  next
    case (Some d)
    then show ?thesis using Yield.IH[of "acc @ [d]"] Yield.IH[of "[d]"] by simp
  qed
qed simp_all

lemma fetch_batch_eq:
  "fetch_batch api gte ts st = (fst st @ fetched api gte ts, snd st @ map (\<lambda>t. (t, gte)) ts)"
proof (induction ts arbitrary: st)
  case Nil
  then show ?case by (simp add: fetched_def)
next
  case (Cons t ts)
  show ?case
    by (simp add: Cons.IH fetched_def drain_acc[of _ "fst st"])
qed

lemma fetch_batches_eq:
  "fetch_batches api gte bs st =
     (fst st @ fetched api gte (concat bs), snd st @ map (\<lambda>t. (t, gte)) (concat bs))"
proof (induction bs arbitrary: st)
  case Nil
  then show ?case by (simp add: fetched_def)
next
  case (Cons b bs)
  show ?case
    by (simp add: Cons.IH fetch_batch_eq fetched_def)
qed

lemma concat_chunks: "concat (map (\<lambda>k. take n (drop (n * k) xs)) [0 ..< m]) = take (n * m) xs"
proof (induction m)
  case 0
  then show ?case by simp
next
  case (Suc m)
  have "n * Suc m = n * m + n"
    by simp
  then have "take (n * m) xs @ take n (drop (n * m) xs) = take (n * Suc m) xs"
    by (simp only: take_add)
  then show ?case using Suc by simp
qed

lemma concat_ticker_batches: "concat (ticker_batches xs) = xs"
proof -
  have "length xs \<le> batch_size * ((length xs + (batch_size - 1)) div batch_size)"
    by (simp add: batch_size_def)
  then show ?thesis
    unfolding ticker_batches_def concat_chunks by simp
qed

lemma fetch_all:
  "fetch_batches api gte (ticker_batches ts) ([], []) = (fetched api gte ts, map (\<lambda>t. (t, gte)) ts)"
  by (simp add: fetch_batches_eq concat_ticker_batches)

section \<open>Lemmas: dropping duplicates\<close>

lemma keep_first_subset: "set (keep_first K seen xs) \<subseteq> set xs"
  by (induction xs arbitrary: seen) auto

lemma keep_first_keys: "K ` set (keep_first K seen xs) = K ` set xs - set seen"
  by (induction xs arbitrary: seen) auto

lemma keep_first_distinct: "distinct (map K (keep_first K seen xs))"
proof (induction xs arbitrary: seen)
  case Nil
  then show ?case by simp
next
  case (Cons r rs)
  have "K r \<notin> K ` set (keep_first K (K r # seen) rs)"
    by (simp add: keep_first_keys)
  then show ?case using Cons by simp
qed

lemma keep_first_seen: "set s = set s' \<Longrightarrow> keep_first K s xs = keep_first K s' xs"
proof (induction xs arbitrary: s s')
  case Nil
  then show ?case by simp
next
  case (Cons r rs)
  have "set (K r # s) = set (K r # s')" using Cons.prems by simp
  then have "keep_first K (K r # s) rs = keep_first K (K r # s') rs"
    by (rule Cons.IH)
  moreover have "keep_first K s rs = keep_first K s' rs"
    using Cons.prems by (rule Cons.IH)
  ultimately show ?case using Cons.prems by simp
qed

lemma keep_first_append:
  "keep_first K seen (xs @ ys) = keep_first K seen xs @ keep_first K (map K xs @ seen) ys"
proof (induction xs arbitrary: seen)
  case Nil
  then show ?case by simp
next
  case (Cons r rs)
  show ?case
  proof (cases "K r \<in> set seen")
    case True
    then have "set (map K rs @ seen) = set (map K (r # rs) @ seen)" by auto
    then have "keep_first K (map K rs @ seen) ys = keep_first K (map K (r # rs) @ seen) ys"
      by (rule keep_first_seen)
    then show ?thesis using True Cons.IH[of seen] by simp
  next
    case False
    have "set (map K rs @ K r # seen) = set (map K (r # rs) @ seen)" by auto
    then have "keep_first K (map K rs @ K r # seen) ys = keep_first K (map K (r # rs) @ seen) ys"
      by (rule keep_first_seen)
    then show ?thesis using False Cons.IH[of "K r # seen"] by simp
  qed
qed

lemma keep_first_id:
  "distinct (map K xs) \<Longrightarrow> K ` set xs \<inter> set seen = {} \<Longrightarrow> keep_first K seen xs = xs"
proof (induction xs arbitrary: seen)
  case Nil
  then show ?case by simp
next
  case (Cons r rs)
  have "K ` set rs \<inter> set (K r # seen) = {}" using Cons.prems by auto
  moreover have "distinct (map K rs)" using Cons.prems by simp
  ultimately have "keep_first K (K r # seen) rs = rs" by (rule Cons.IH[rotated])
  then show ?case using Cons.prems by simp
qed

lemma keep_first_filter:
  "filter (\<lambda>x. K x = k) (keep_first K seen xs) =
     (if k \<in> set seen then [] else take 1 (filter (\<lambda>x. K x = k) xs))"
proof (induction xs arbitrary: seen)
  case Nil
  then show ?case by simp
next
  case (Cons r rs)
  show ?case
  proof (cases "K r \<in> set seen")
    case True
    then show ?thesis using Cons.IH[of seen] by auto
  next
    case False
    then show ?thesis using Cons.IH[of "K r # seen"] by auto
  qed
qed

section \<open>Lemmas: rows and date columns\<close>

lemma keys_put: "map fst (put r c v) = map fst r"
  by (induction r c v rule: put.induct) auto

lemma get_put: "get (put r c v) c' = (if c' = c \<and> c \<in> fst ` set r then v else get r c')"
  by (induction r c v rule: put.induct) (force simp: get_def)+

lemma put_same: "put r c (get r c) = r"
  by (induction r c "get r c" rule: put.induct) (auto simp: get_def)

lemma get_absent: "c \<notin> fst ` set r \<Longrightarrow> get r c = Null"
  by (simp add: get_def map_of_eq_None_iff[THEN iffD2])

lemma put_absent: "c \<notin> fst ` set r \<Longrightarrow> put r c v = r"
  by (induction r c v rule: put.induct) auto

lemma to_datetime_idem: "to_datetime v = Inr t \<Longrightarrow> to_datetime t = Inr t"
  by (cases v) (auto split: option.splits)

lemma keys_dated: "map fst (dated c r) = map fst r"
  by (simp add: dated_def keys_put split: sum.splits)

lemma get_dated_other: "c' \<noteq> c \<Longrightarrow> get (dated c r) c' = get r c'"
  by (simp add: dated_def get_put split: sum.splits)

lemma dated_id: "to_datetime (get r c) = Inr (get r c) \<Longrightarrow> dated c r = r"
  by (simp add: dated_def put_same)

lemma dated_Ts: "get r c = Ts n \<Longrightarrow> dated c r = r"
  by (rule dated_id) simp

lemma has_column_dated: "has_column (map (dated c) df) c' = has_column df c'"
  by (induction df) (auto simp: has_column_def keys_dated simp flip: set_map)

lemma column_to_datetime_map: "column_to_datetime c df = Inr df' \<Longrightarrow> df' = map (dated c) df"
  by (induction df arbitrary: df') (auto simp: dated_def split: sum.splits)

lemma no_column_dated: "\<not> has_column df c \<Longrightarrow> map (dated c) df = df"
proof (induction df)
  case Nil
  then show ?case by simp
next
  case (Cons r df)
  then have "c \<notin> fst ` set r" and "\<not> has_column df c"
    by (auto simp: has_column_def)
  then show ?case using Cons.IH
    by (simp add: dated_def get_absent put_absent)
qed

lemma guarded_to_datetime:
  "(if has_column df c then column_to_datetime c df else Inr df) = Inr df' \<Longrightarrow> df' = map (dated c) df"
  by (auto simp: no_column_dated dest: column_to_datetime_map split: if_splits)

section \<open>Lemmas: the merges\<close>

lemma merge_dividends_Inr:
  assumes "merge_dividends S F disk = Inr (R, disk')" and "F \<noteq> []"
  shows "R = keep_first (key_of dividend_subset) [] (map (dated ''ex_dividend_date'') (S @ F))
         \<and> disk' = Parquet R"
proof -
  from assms obtain new_df existing' where
    n: "(if has_column F ''ex_dividend_date'' then column_to_datetime ''ex_dividend_date'' F
         else Inr F) = Inr new_df"
    and e: "column_to_datetime ''ex_dividend_date'' S = Inr existing'"
    and d: "drop_duplicates dividend_subset (existing' @ new_df) = Inr R"
    and w: "disk' = Parquet R"
    unfolding merge_dividends_def
    by (auto split: sum.splits if_splits)
  have "new_df = map (dated ''ex_dividend_date'') F"
    using n by (rule guarded_to_datetime)
  moreover have "existing' = map (dated ''ex_dividend_date'') S"
    using e by (rule column_to_datetime_map)
  moreover have "R = keep_first (key_of dividend_subset) [] (existing' @ new_df)"
    using d by (auto simp: drop_duplicates_def split: if_splits)
  ultimately show ?thesis using w by simp
qed

section \<open>Evaluation\<close>

lemmas calendar_defs = parse_date_def digit_of_def ymd2ord_def days_before_year_def
  days_before_month_def days_in_month_def DAYS_IN_MONTH_def DAYS_BEFORE_MONTH_def is_leap_def
  strftime_def ord2ymd_def pad4_def pad2_def digit_char_def Let_def

lemmas frame_defs = get_def has_column_def df_empty_def column_def series_max_def
  lookback_days_def unique_def dropna_def key_of_def drop_duplicates_def read_existing_def

lemma parse_2024_01_10: "parse_date ''2024-01-10'' = Some 738895"
  by (simp add: calendar_defs)

lemma parse_2024_04_10: "parse_date ''2024-04-10'' = Some 738986"
  by (simp add: calendar_defs)

lemma strftime_738888: "strftime 738888 = ''2024-01-03''"
  by (simp add: calendar_defs)

lemma strftime_738979: "strftime 738979 = ''2024-04-03''"
  by (simp add: calendar_defs)

lemma from_date_aapl_jan: "from_date ''ex_dividend_date'' [aapl_jan] = Inr ''2024-01-03''"
  by (simp add: from_date_def aapl_jan_def frame_defs parse_2024_01_10 strftime_738888)

section \<open>An empty fetch\<close>

text \<open>
  C4. A run over a non-empty snapshot \<open>S\<close> whose requests bring no record returns \<open>S\<close>
  as it is and leaves the file as it was: the result is a value, not an exception. The
  run has computed the fetch-from date from \<open>S\<close> before it asks the vendor, so \<open>S\<close> is a
  snapshot whose watermark column reads as dates. The same holds of the merge step of
  each pipeline that has one.
\<close>

theorem empty_fetch_returns_existing:
  assumes "\<not> df_empty S"
    and "from_date ''ex_dividend_date'' S = Inr fd"
    and "fetched list_dividends (Some fd) (unique tickers) = []"
  shows "update_dividend_history list_dividends tickers (Parquet S) =
           Inr \<lparr>returned = S, snapshot = Parquet S,
                requests = map (\<lambda>t. (t, Some fd)) (unique tickers)\<rparr>
         \<and> merge_dividends S [] disk = Inr (S, disk)
         \<and> merge_splits truediv S [] disk = Inr (S, disk)
         \<and> merge_events S [] disk = Inr (S, disk)
         \<and> merge_ipos S [] disk = Inr (S, disk)"
  using assms
  by (simp add: update_dividend_history_def read_existing_def fetch_all merge_dividends_def
      merge_splits_def merge_events_def merge_ipos_def)

theorem empty_fetch_returns_existing_witness:
  "update_dividend_history (\<lambda>t gte. Exhausted) [Str ''AAPL''] (Parquet [aapl_jan]) =
     Inr \<lparr>returned = [aapl_jan], snapshot = Parquet [aapl_jan],
          requests = [(Str ''AAPL'', Some ''2024-01-03'')]\<rparr>"
proof -
  have 1: "\<not> df_empty [aapl_jan]"
    by (simp add: df_empty_def aapl_jan_def)
  have 2: "fetched (\<lambda>t gte. Exhausted) (Some ''2024-01-03'') (unique [Str ''AAPL'']) = []"
    by (simp add: fetched_def unique_def)
  show ?thesis
    using empty_fetch_returns_existing[OF 1 from_date_aapl_jan 2]
    by (simp add: unique_def)
qed

section \<open>Which version of a record survives a merge\<close>

lemma parse_2022_06_09: "parse_date ''2022-06-09'' = Some 738315"
  by (simp add: calendar_defs)

lemma first_wins:
  assumes "s \<in> set xs" and "K s = k"
  shows "\<exists>s'\<in>set xs. K s' = k \<and> filter (\<lambda>r. K r = k) (keep_first K [] (xs @ ys)) = [s']"
proof -
  from assms have "filter (\<lambda>r. K r = k) xs \<noteq> []"
    by (auto simp: filter_empty_conv)
  then obtain s' rest where f: "filter (\<lambda>r. K r = k) xs = s' # rest"
    by (cases "filter (\<lambda>r. K r = k) xs") auto
  then have "s' \<in> set (filter (\<lambda>r. K r = k) xs)" by simp
  then have "s' \<in> set xs" and "K s' = k" by auto
  moreover have "filter (\<lambda>r. K r = k) (keep_first K [] (xs @ ys)) = [s']"
    using f by (simp add: keep_first_filter)
  ultimately show ?thesis by blast
qed

lemma merge_events_Inr:
  assumes "merge_events S F disk = Inr (R, disk')" and "F \<noteq> []"
  shows "R = keep_first (key_of event_subset) [] (map (dated ''date'') (S @ F))
         \<and> disk' = Parquet R"
proof -
  from assms obtain new_df existing' where
    n: "column_to_datetime ''date'' F = Inr new_df"
    and e: "column_to_datetime ''date'' S = Inr existing'"
    and d: "drop_duplicates event_subset (existing' @ new_df) = Inr R"
    and w: "disk' = Parquet R"
    unfolding merge_events_def
    by (auto split: sum.splits if_splits)
  have "new_df = map (dated ''date'') F"
    using n by (rule column_to_datetime_map)
  moreover have "existing' = map (dated ''date'') S"
    using e by (rule column_to_datetime_map)
  moreover have "R = keep_first (key_of event_subset) [] (existing' @ new_df)"
    using d by (auto simp: drop_duplicates_def split: if_splits)
  ultimately show ?thesis using w by simp
qed

lemma first_wins_dated:
  assumes "R = keep_first K [] (map d (S @ F))" and "s \<in> set S" and "K (d f) = K (d s)"
  shows "\<exists>s'\<in>set S. filter (\<lambda>r. K r = K (d f)) R = [d s']"
proof -
  have "d s \<in> set (map d S)" using assms(2) by simp
  moreover have "K (d s) = K (d f)" using assms(3) by simp
  ultimately obtain x where x: "x \<in> set (map d S)"
    and fx: "filter (\<lambda>r. K r = K (d f)) (keep_first K [] (map d S @ map d F)) = [x]"
    using first_wins[of "d s" "map d S" K "K (d f)" "map d F"] by blast
  from x obtain s' where "s' \<in> set S" and "x = d s'" by auto
  then show ?thesis using fx assms(1) by auto
qed

lemma update_dividend_history_merge:
  assumes "\<not> df_empty S" and "from_date ''ex_dividend_date'' S = Inr fd"
  shows "update_dividend_history api ts (Parquet S) =
     (case merge_dividends S (fetched api (Some fd) (unique ts)) (Parquet S) of
        Inl e \<Rightarrow> Inl e
      | Inr (df, disk') \<Rightarrow>
          Inr \<lparr>returned = df, snapshot = disk',
               requests = map (\<lambda>t. (t, Some fd)) (unique ts)\<rparr>)"
  using assms by (simp add: update_dividend_history_def read_existing_def fetch_all Let_def)

lemma merge_stored_revised:
  "merge_dividends [aapl_jan_stored] [aapl_jan_revised] disk
     = Inr ([aapl_jan_stored], Parquet [aapl_jan_stored])"
  by (simp add: merge_dividends_def aapl_jan_stored_def aapl_jan_revised_def
      dividend_subset_def frame_defs parse_2024_01_10)

lemma merge_event_stored_revised:
  "merge_events [event_stored] [event_revised] disk
     = Inr ([event_stored], Parquet [event_stored])"
  by (simp add: merge_events_def event_stored_def event_revised_def
      event_subset_def frame_defs parse_2022_06_09)

lemma key_revised:
  "key_of dividend_subset (dated ''ex_dividend_date'' aapl_jan_revised)
     = key_of dividend_subset (dated ''ex_dividend_date'' aapl_jan_stored)"
  by (simp add: aapl_jan_stored_def aapl_jan_revised_def dated_def dividend_subset_def
      frame_defs parse_2024_01_10)

lemma key_event_revised:
  "key_of event_subset (dated ''date'' event_revised)
     = key_of event_subset (dated ''date'' event_stored)"
  by (simp add: event_stored_def event_revised_def dated_def event_subset_def
      frame_defs parse_2022_06_09)

lemma fetched_one_feed:
  "fetched (one_feed (Str ''AAPL'') rows) gte [Str ''AAPL''] = drain (foldr (\<lambda>r f. Yield (Some r) f) rows Exhausted) []"
  by (simp add: fetched_def one_feed_def)

text \<open>
  C1, as stated, fails. \<^verbatim>\<open>drop_duplicates\<close> keeps the first row of each key and the merge
  puts the existing rows first (\<^verbatim>\<open>pd.concat([existing_dividends, new_records_df])\<close>), so
  the stored version stays and the fetched one is dropped: here the run over the stored
  dividend, with a vendor that sends the revised one (same key, another pay date),
  returns and writes the stored row alone.
\<close>

theorem fetched_version_wins_counterexample:
  "update_dividend_history (one_feed (Str ''AAPL'') [aapl_jan_revised]) [Str ''AAPL'']
        (Parquet [aapl_jan_stored]) =
      Inr \<lparr>returned = [aapl_jan_stored], snapshot = Parquet [aapl_jan_stored],
           requests = [(Str ''AAPL'', Some ''2024-01-03'')]\<rparr>
   \<and> key_of dividend_subset (dated ''ex_dividend_date'' aapl_jan_revised) =
     key_of dividend_subset aapl_jan_stored
   \<and> get aapl_jan_revised ''pay_date'' \<noteq> get aapl_jan_stored ''pay_date''"
proof -
  have d: "\<not> df_empty [aapl_jan_stored]"
    by (simp add: df_empty_def aapl_jan_stored_def)
  have f: "from_date ''ex_dividend_date'' [aapl_jan_stored] = Inr ''2024-01-03''"
    by (simp add: from_date_def aapl_jan_stored_def frame_defs strftime_738888)
  have u: "unique [Str ''AAPL''] = [Str ''AAPL'']"
    by (simp add: unique_def)
  have g: "fetched (one_feed (Str ''AAPL'') [aapl_jan_revised]) (Some ''2024-01-03'') [Str ''AAPL'']
             = [aapl_jan_revised]"
    by (simp add: fetched_one_feed)
  have 1: "update_dividend_history (one_feed (Str ''AAPL'') [aapl_jan_revised]) [Str ''AAPL'']
        (Parquet [aapl_jan_stored]) =
      Inr \<lparr>returned = [aapl_jan_stored], snapshot = Parquet [aapl_jan_stored],
           requests = [(Str ''AAPL'', Some ''2024-01-03'')]\<rparr>"
    by (simp add: update_dividend_history_merge[OF d f] u g merge_stored_revised)
  have 2: "key_of dividend_subset (dated ''ex_dividend_date'' aapl_jan_revised) =
     key_of dividend_subset aapl_jan_stored"
    by (simp add: aapl_jan_stored_def aapl_jan_revised_def dated_def dividend_subset_def
      frame_defs parse_2024_01_10)
  have 3: "get aapl_jan_revised ''pay_date'' \<noteq> get aapl_jan_stored ''pay_date''"
    by (simp add: aapl_jan_stored_def aapl_jan_revised_def get_def)
  show ?thesis using 1 2 3 by blast
qed

text \<open>
  C1, amended. When a fetched record has the key of an existing record, the merged frame
  of the dividends and of the ticker-events pipeline holds exactly one row with that
  key, and it is an existing row (with its date column read as a timestamp), not the
  fetched one. Keys are compared after \<^verbatim>\<open>pd.to_datetime\<close>, as the code compares them.
\<close>

theorem existing_record_wins:
  assumes "(merge_dividends S F disk = Inr (R, disk') \<and> cols = dividend_subset
              \<and> c = ''ex_dividend_date'')
           \<or> (merge_events S F disk = Inr (R, disk') \<and> cols = event_subset \<and> c = ''date'')"
    and "F \<noteq> []" and "s \<in> set S" and "f \<in> set F"
    and "key_of cols (dated c f) = key_of cols (dated c s)"
  shows "\<exists>s'\<in>set S.
           (filter (\<lambda>r. key_of cols r = key_of cols (dated c f)) R) = [dated c s']"
proof -
  have "R = keep_first (key_of cols) [] (map (dated c) (S @ F))"
    using assms(1) merge_dividends_Inr[OF _ assms(2)] merge_events_Inr[OF _ assms(2)]
    by blast
  then show ?thesis using assms(3,5) by (rule first_wins_dated)
qed

theorem existing_record_wins_witness:
  "(\<exists>s'\<in>set [aapl_jan_stored].
      (filter (\<lambda>r. key_of dividend_subset r
                   = key_of dividend_subset (dated ''ex_dividend_date'' aapl_jan_revised))
        [aapl_jan_stored]) = [dated ''ex_dividend_date'' s'])
   \<and> (\<exists>s'\<in>set [event_stored].
      (filter (\<lambda>r. key_of event_subset r = key_of event_subset (dated ''date'' event_revised))
        [event_stored]) = [dated ''date'' s'])"
proof -
  have a: "\<exists>s'\<in>set [aapl_jan_stored].
      (filter (\<lambda>r. key_of dividend_subset r
                   = key_of dividend_subset (dated ''ex_dividend_date'' aapl_jan_revised))
        [aapl_jan_stored]) = [dated ''ex_dividend_date'' s']"
    by (rule existing_record_wins[where F = "[aapl_jan_revised]" and disk = NoFile
          and disk' = "Parquet [aapl_jan_stored]" and s = aapl_jan_stored
          and f = aapl_jan_revised])
       (simp_all add: merge_stored_revised key_revised)
  have b: "\<exists>s'\<in>set [event_stored].
      (filter (\<lambda>r. key_of event_subset r = key_of event_subset (dated ''date'' event_revised))
        [event_stored]) = [dated ''date'' s']"
    by (rule existing_record_wins[where F = "[event_revised]" and disk = NoFile
          and disk' = "Parquet [event_stored]" and s = event_stored and f = event_revised])
       (simp_all add: merge_event_stored_revised key_event_revised)
  show ?thesis using a b by (rule conjI)
qed

section \<open>Equal keys in what a run writes\<close>

lemma drop_duplicates_distinct:
  "drop_duplicates cols df = Inr R \<Longrightarrow> distinct (map (key_of cols) R)"
  by (auto simp: drop_duplicates_def keep_first_distinct split: if_splits)

lemma merge_dividends_distinct:
  "merge_dividends S F disk = Inr (R, disk') \<Longrightarrow> F \<noteq> [] \<Longrightarrow>
     distinct (map (key_of dividend_subset) R) \<and> disk' = Parquet R"
  unfolding merge_dividends_def
  by (auto split: sum.splits if_splits dest: drop_duplicates_distinct)

lemma merge_splits_distinct:
  "merge_splits truediv S F disk = Inr (R, disk') \<Longrightarrow> F \<noteq> [] \<Longrightarrow>
     distinct (map (key_of split_subset) R) \<and> disk' = Parquet R"
  unfolding merge_splits_def
  by (auto split: sum.splits if_splits dest: drop_duplicates_distinct)

lemma merge_events_distinct:
  "merge_events S F disk = Inr (R, disk') \<Longrightarrow> F \<noteq> [] \<Longrightarrow>
     distinct (map (key_of event_subset) R) \<and> disk' = Parquet R"
  unfolding merge_events_def
  by (auto split: sum.splits if_splits dest: drop_duplicates_distinct)

lemma import_events_distinct:
  "import_events F disk = Inr (R, disk') \<Longrightarrow> \<not> df_empty F \<Longrightarrow>
     distinct (map (key_of event_subset) R) \<and> disk' = Parquet R"
  unfolding import_events_def
  by (auto split: sum.splits if_splits dest: drop_duplicates_distinct)

lemma merge_fundamentals_distinct:
  "merge_fundamentals (Some S) F disk = Inr (Some R, disk') \<Longrightarrow> F \<noteq> [] \<Longrightarrow>
     distinct (map (key_of fundamental_subset) R) \<and> disk' = Parquet R"
  unfolding merge_fundamentals_def
  by (auto split: sum.splits if_splits dest: drop_duplicates_distinct)

lemma parse_2024_04_01: "parse_date ''2024-04-01'' = Some 738977"
  by (simp add: calendar_defs)

lemma parse_2024_04_02: "parse_date ''2024-04-02'' = Some 738978"
  by (simp add: calendar_defs)

lemma parse_2024_04_18: "parse_date ''2024-04-18'' = Some 738994"
  by (simp add: calendar_defs)

lemma strftime_738959: "strftime 738959 = ''2024-03-14''"
  by (simp add: calendar_defs)

lemma ipo_one_page:
  "results \<noteq> [] \<Longrightarrow>
   ipo_pages (one_page results) gte max_pages None None st
     = (None, fst st @ results, snd st @ [(gte, None)])"
  by (simp add: max_pages_def eval_nat_numeral one_page_def)

lemma update_dividend_history_import:
  "update_dividend_history api ts NoFile =
     Inr \<lparr>returned = fetched api None (unique ts),
          snapshot = (if \<not> df_empty (fetched api None (unique ts))
                      then Parquet (fetched api None (unique ts)) else NoFile),
          requests = map (\<lambda>t. (t, None)) (unique ts)\<rparr>"
  by (simp add: update_dividend_history_def read_existing_def import_dividends_def fetch_all Let_def)

lemma merge_ipo_example:
  "merge_ipos [ipo_stored] [ipo_pending, ipo_priced] disk =
     Inr ([ipo_stored, ipo_pending_dated, ipo_priced_dated],
          Parquet [ipo_stored, ipo_pending_dated, ipo_priced_dated])"
  by (simp add: merge_ipos_def date_columns_def ipo_stored_def ipo_pending_def ipo_priced_def
      ipo_pending_dated_def ipo_priced_dated_def frame_defs Let_def
      parse_2024_04_01 parse_2024_04_02 parse_2024_04_18)

lemma from_date_ipo_stored: "from_date ''modified_date'' [ipo_stored] = Inr ''2024-03-14''"
  by (simp add: from_date_def ipo_stored_def frame_defs strftime_738959)

text \<open>
  C2, as stated, fails. The initial import of dividends (no snapshot file) writes what it
  fetched, with no \<^verbatim>\<open>drop_duplicates\<close>: two fetched rows with one key are both written.
  The IPO merge has no \<^verbatim>\<open>drop_duplicates\<close> either: it removes the existing rows whose
  ticker was fetched and appends every fetched row, so two fetched rows of one ticker are
  both written.
\<close>

theorem no_equal_keys_counterexample:
  "update_dividend_history (one_feed (Str ''AAPL'') [aapl_jan, aapl_jan_revised])
       [Str ''AAPL''] NoFile =
     Inr \<lparr>returned = [aapl_jan, aapl_jan_revised],
          snapshot = Parquet [aapl_jan, aapl_jan_revised],
          requests = [(Str ''AAPL'', None)]\<rparr>
   \<and> key_of dividend_subset aapl_jan = key_of dividend_subset aapl_jan_revised
   \<and> update_ipo_history (one_page [ipo_pending, ipo_priced]) (Parquet [ipo_stored]) =
     Inr \<lparr>returned = Some [ipo_stored, ipo_pending_dated, ipo_priced_dated],
          snapshot = Parquet [ipo_stored, ipo_pending_dated, ipo_priced_dated],
          requests = [(Some ''2024-03-14'', None)]\<rparr>
   \<and> get ipo_pending_dated ''ticker'' = get ipo_priced_dated ''ticker''"
proof -
  have 1: "update_dividend_history (one_feed (Str ''AAPL'') [aapl_jan, aapl_jan_revised])
       [Str ''AAPL''] NoFile =
     Inr \<lparr>returned = [aapl_jan, aapl_jan_revised],
          snapshot = Parquet [aapl_jan, aapl_jan_revised],
          requests = [(Str ''AAPL'', None)]\<rparr>"
    by (simp add: update_dividend_history_import unique_def fetched_one_feed df_empty_def
        aapl_jan_def)
  have 2: "key_of dividend_subset aapl_jan = key_of dividend_subset aapl_jan_revised"
    by (simp add: key_of_def dividend_subset_def aapl_jan_def aapl_jan_revised_def get_def)
  have e: "\<not> df_empty [ipo_stored]" and h: "has_column [ipo_stored] ''modified_date''"
    by (simp_all add: df_empty_def has_column_def ipo_stored_def)
  have 3: "update_ipo_history (one_page [ipo_pending, ipo_priced]) (Parquet [ipo_stored]) =
     Inr \<lparr>returned = Some [ipo_stored, ipo_pending_dated, ipo_priced_dated],
          snapshot = Parquet [ipo_stored, ipo_pending_dated, ipo_priced_dated],
          requests = [(Some ''2024-03-14'', None)]\<rparr>"
    using e h
    by (simp add: update_ipo_history_def read_existing_def from_date_ipo_stored ipo_one_page
        merge_ipo_example)
  have 4: "get ipo_pending_dated ''ticker'' = get ipo_priced_dated ''ticker''"
    by (simp add: ipo_pending_dated_def ipo_priced_dated_def get_def)
  show ?thesis using 1 2 3 4 by blast
qed

text \<open>
  C2, amended. When the existing snapshot and the fetched batch are both non-empty, the
  frame that the merge of the dividends, splits, ticker-events and fundamentals pipelines
  returns is the frame it writes, and no two of its rows have equal values in the
  pipeline's key columns; the same holds of the initial import of ticker events. (The
  initial imports of dividends and splits and the IPO merge do not deduplicate.)
\<close>

theorem merged_keys_distinct:
  assumes "(merge_dividends S F disk = Inr (R, disk') \<and> F \<noteq> [] \<and> cols = dividend_subset)
         \<or> (merge_splits truediv S F disk = Inr (R, disk') \<and> F \<noteq> [] \<and> cols = split_subset)
         \<or> (merge_events S F disk = Inr (R, disk') \<and> F \<noteq> [] \<and> cols = event_subset)
         \<or> (merge_fundamentals (Some S) F disk = Inr (Some R, disk') \<and> F \<noteq> []
               \<and> cols = fundamental_subset)
         \<or> (import_events F disk = Inr (R, disk') \<and> \<not> df_empty F \<and> cols = event_subset)"
  shows "distinct (map (key_of cols) R) \<and> disk' = Parquet R"
  using assms merge_dividends_distinct[of S F disk R disk']
    merge_splits_distinct[of truediv S F disk R disk']
    merge_events_distinct[of S F disk R disk']
    merge_fundamentals_distinct[of S F disk R disk']
    import_events_distinct[of F disk R disk']
  by blast

lemma merge_jan_apr:
  "merge_dividends [aapl_jan_stored] [aapl_jan_revised, aapl_apr] disk
     = Inr ([aapl_jan_stored, aapl_apr_stored], Parquet [aapl_jan_stored, aapl_apr_stored])"
  by (simp add: merge_dividends_def aapl_jan_stored_def aapl_jan_revised_def aapl_apr_def
      aapl_apr_stored_def dividend_subset_def frame_defs parse_2024_01_10 parse_2024_04_10)

theorem merged_keys_distinct_witness:
  "merge_dividends [aapl_jan_stored] [aapl_jan_revised, aapl_apr] NoFile
     = Inr ([aapl_jan_stored, aapl_apr_stored], Parquet [aapl_jan_stored, aapl_apr_stored])
   \<and> distinct (map (key_of dividend_subset) [aapl_jan_stored, aapl_apr_stored])
   \<and> length [aapl_jan_stored, aapl_apr_stored] = 2"
  using merged_keys_distinct[of "[aapl_jan_stored]" "[aapl_jan_revised, aapl_apr]" NoFile
      "[aapl_jan_stored, aapl_apr_stored]" "Parquet [aapl_jan_stored, aapl_apr_stored]"
      dividend_subset]
    merge_jan_apr[of NoFile]
  by simp

section \<open>A run without a snapshot\<close>

lemma figi_batch_eq:
  "figi_batch api collect fs st =
     (fst st @ fetched_events api collect fs, snd st @ map (\<lambda>f. (f, None)) fs)"
  by (induction fs arbitrary: st) (simp_all add: fetched_events_def)

lemma figi_batches_eq:
  "figi_batches api collect bs st =
     (fst st @ fetched_events api collect (concat bs), snd st @ map (\<lambda>f. (f, None)) (concat bs))"
  by (induction bs arbitrary: st) (simp_all add: fetched_events_def figi_batch_eq)

lemma figi_all:
  "figi_batches api collect (ticker_batches fs) ([], []) =
     (fetched_events api collect fs, map (\<lambda>f. (f, None)) fs)"
  by (simp add: figi_batches_eq concat_ticker_batches)

lemma collection_dict_nonempty: "collection_dict ev row = Inr d \<Longrightarrow> d \<noteq> []"
  by (auto simp: collection_dict_def split: sum.splits)

lemma all_events_nonempty: "all_events ev rows = Inr ds \<Longrightarrow> [] \<notin> set ds"
  by (induction rows arbitrary: ds)
     (auto split: sum.splits dest: collection_dict_nonempty)

lemma figi_all_events_nonempty: "[] \<notin> set (figi_events api (\<lambda>ev figi. all_events ev) f)"
proof (cases "api f")
  case (Events ev)
  show ?thesis
  proof (cases "all_events ev (events ev)")
    case (Inl e)
    then show ?thesis using Events by (simp add: figi_events_def)
  next
    case (Inr ds)
    then have "[] \<notin> set ds" by (rule all_events_nonempty)
    then show ?thesis using Events Inr by (simp add: figi_events_def)
  qed
qed (simp_all add: figi_events_def)

lemma fetched_all_events_nonempty:
  "[] \<notin> set (fetched_events api (\<lambda>ev figi. all_events ev) fs)"
  using figi_all_events_nonempty by (auto simp: fetched_events_def)

lemma df_empty_iff: "[] \<notin> set df \<Longrightarrow> df_empty df = (df = [])"
  by (cases df) (auto simp: df_empty_def)

lemma import_events_Inr:
  assumes "import_events F disk = Inr (R, disk')" and "[] \<notin> set F"
  shows "R = keep_first (key_of event_subset) [] (map (dated ''date'') F)"
proof (cases "F = []")
  case True
  then show ?thesis using assms by (simp add: import_events_def df_empty_def)
next
  case False
  then have "\<not> df_empty F" using assms(2) by (simp add: df_empty_iff)
  then obtain dd where d: "column_to_datetime ''date'' F = Inr dd"
    and r: "drop_duplicates event_subset dd = Inr R"
    using assms(1) unfolding import_events_def
    by (auto split: sum.splits if_splits)
  have "dd = map (dated ''date'') F" using d by (rule column_to_datetime_map)
  then show ?thesis using r by (auto simp: drop_duplicates_def split: if_splits)
qed

lemma update_dividend_history_no_snapshot:
  assumes "no_snapshot disk"
  shows "update_dividend_history api ts disk =
     Inr \<lparr>returned = fetched api None (unique ts),
          snapshot = (if \<not> df_empty (fetched api None (unique ts))
                      then Parquet (fetched api None (unique ts)) else disk),
          requests = map (\<lambda>t. (t, None)) (unique ts)\<rparr>"
  using assms
  by (auto simp: no_snapshot_def update_dividend_history_def import_dividends_def fetch_all
      Let_def split: option.splits)

lemma update_split_history_no_snapshot:
  assumes "no_snapshot disk"
  shows "update_split_history truediv api ts disk =
           import_splits truediv api (unique ts) disk"
  using assms
  by (auto simp: no_snapshot_def update_split_history_def Let_def split: option.splits)

lemma update_ticker_events_no_snapshot:
  assumes "no_snapshot disk"
  shows "update_ticker_events api figis disk = initial_events api (unique (dropna figis)) disk"
  using assms
  by (auto simp: no_snapshot_def update_ticker_events_def Let_def split: option.splits)

lemma import_splits_returned:
  assumes "import_splits truediv api ts disk = Inr out"
  shows "returned out =
           (if df_empty (fetched api None ts) then fetched api None ts
            else map (\<lambda>r. assign r ''ratio'' (truediv (get r ''split_to'') (get r ''split_from'')))
                   (fetched api None ts))"
  using assms
  by (auto simp: import_splits_def fetch_all with_ratio_def split: sum.splits if_splits)

lemma initial_events_returned:
  assumes "initial_events api fs disk = Inr out"
  shows "returned out = keep_first (key_of event_subset) []
           (map (dated ''date'') (fetched_events api (\<lambda>ev figi. all_events ev) fs))"
proof -
  let ?F = "fetched_events api (\<lambda>ev figi. all_events ev) fs"
  from assms obtain R disk' where i: "import_events ?F disk = Inr (R, disk')"
    and o: "returned out = R"
    by (auto simp: initial_events_def figi_all split: sum.splits)
  show ?thesis
    using import_events_Inr[OF i fetched_all_events_nonempty] o by simp
qed

lemma parse_2012_05_18: "parse_date ''2012-05-18'' = Some 734641"
  by (simp add: calendar_defs)

lemma no_snapshot_NoFile: "no_snapshot NoFile"
  by (simp add: no_snapshot_def read_existing_def)

lemma fetched_events_meta:
  "fetched_events events_of_meta (\<lambda>ev figi. all_events ev) [Str ''BBG000MM2P62''] =
     [[(''name'', Str ''Meta Platforms''), (''composite_figi'', Str ''BBG000MM2P62''),
       (''cik'', Str ''0001326801''), (''new_ticker'', Str ''FB''),
       (''type'', Str ''ticker_change''), (''date'', Str ''2012-05-18'')],
      [(''name'', Str ''Meta Platforms''), (''composite_figi'', Str ''BBG000MM2P62''),
       (''cik'', Str ''0001326801''), (''new_ticker'', Str ''META''),
       (''type'', Str ''ticker_change''), (''date'', Str ''2022-06-09'')],
      [(''name'', Str ''Meta Platforms''), (''composite_figi'', Str ''BBG000MM2P62''),
       (''cik'', Str ''0001326801''), (''new_ticker'', Str ''META''),
       (''type'', Str ''ticker_change''), (''date'', Str ''2022-06-09'')]]"
  by (simp add: fetched_events_def figi_events_def events_of_meta_def meta_events_def
      fb_listing_def meta_change_def collection_dict_def item_def subitem_def)

lemma events_run_example:
  "update_ticker_events events_of_meta [Str ''BBG000MM2P62''] NoFile =
     Inr \<lparr>returned = [fb_stored, event_stored], snapshot = Parquet [fb_stored, event_stored],
          requests = [(Str ''BBG000MM2P62'', None)]\<rparr>"
  by (simp add: update_ticker_events_no_snapshot[OF no_snapshot_NoFile] initial_events_def
      figi_all fetched_events_meta import_events_def event_subset_def fb_stored_def
      event_stored_def frame_defs parse_2012_05_18 parse_2022_06_09)

text \<open>
  C3, as stated, fails. Without a snapshot the dividends pipeline returns and writes the
  fetched batch as it is (lines 128-133 have no \<^verbatim>\<open>drop_duplicates\<close>): three fetched rows of
  which two share a key give three rows, where deduplication would give two.
\<close>

theorem absent_snapshot_deduplicates_counterexample:
  "update_dividend_history (one_feed (Str ''AAPL'') [aapl_jan, aapl_jan_revised, aapl_apr])
       [Str ''AAPL''] NoFile =
     Inr \<lparr>returned = [aapl_jan, aapl_jan_revised, aapl_apr],
          snapshot = Parquet [aapl_jan, aapl_jan_revised, aapl_apr],
          requests = [(Str ''AAPL'', None)]\<rparr>
   \<and> key_of dividend_subset aapl_jan = key_of dividend_subset aapl_jan_revised
   \<and> keep_first (key_of dividend_subset) [] [aapl_jan, aapl_jan_revised, aapl_apr]
       = [aapl_jan, aapl_apr]
   \<and> length [aapl_jan, aapl_jan_revised, aapl_apr] = 3"
proof -
  have 1: "update_dividend_history (one_feed (Str ''AAPL'') [aapl_jan, aapl_jan_revised, aapl_apr])
       [Str ''AAPL''] NoFile =
     Inr \<lparr>returned = [aapl_jan, aapl_jan_revised, aapl_apr],
          snapshot = Parquet [aapl_jan, aapl_jan_revised, aapl_apr],
          requests = [(Str ''AAPL'', None)]\<rparr>"
    by (simp add: update_dividend_history_import unique_def fetched_one_feed df_empty_def
        aapl_jan_def)
  have 2: "key_of dividend_subset aapl_jan = key_of dividend_subset aapl_jan_revised"
    by (simp add: key_of_def dividend_subset_def aapl_jan_def aapl_jan_revised_def get_def)
  have 3: "keep_first (key_of dividend_subset) [] [aapl_jan, aapl_jan_revised, aapl_apr]
       = [aapl_jan, aapl_apr]"
    by (simp add: key_of_def dividend_subset_def aapl_jan_def aapl_jan_revised_def
        aapl_apr_def get_def)
  show ?thesis using 1 2 3 by simp
qed

text \<open>
  C3, amended. When the existing snapshot is absent or empty, the run returns what it
  fetched without a lower bound on the date: the dividends pipeline the fetched batch
  unchanged (and it never raises), the splits pipeline the fetched batch with its
  \<^verbatim>\<open>ratio\<close> column, neither deduplicated; the ticker-events pipeline the fetched batch
  with its dates read and its duplicates dropped, so that there three fetched events of
  which two share a key give two records.
\<close>

theorem no_snapshot_returns_fetched:
  assumes "no_snapshot disk"
  shows "update_dividend_history list_dividends tickers disk =
           Inr \<lparr>returned = fetched list_dividends None (unique tickers),
                snapshot = (if \<not> df_empty (fetched list_dividends None (unique tickers))
                            then Parquet (fetched list_dividends None (unique tickers)) else disk),
                requests = map (\<lambda>t. (t, None)) (unique tickers)\<rparr>
       \<and> (\<forall>out. update_split_history truediv list_splits tickers disk = Inr out \<longrightarrow>
             returned out =
               (if df_empty (fetched list_splits None (unique tickers))
                then fetched list_splits None (unique tickers)
                else map (\<lambda>r. assign r ''ratio''
                                 (truediv (get r ''split_to'') (get r ''split_from'')))
                       (fetched list_splits None (unique tickers))))
       \<and> (\<forall>out. update_ticker_events get_ticker_events figis disk = Inr out \<longrightarrow>
             returned out = keep_first (key_of event_subset) []
               (map (dated ''date'')
                  (fetched_events get_ticker_events (\<lambda>ev figi. all_events ev)
                     (unique (dropna figis)))))"
proof (intro conjI allI impI)
  show "update_dividend_history list_dividends tickers disk =
           Inr \<lparr>returned = fetched list_dividends None (unique tickers),
                snapshot = (if \<not> df_empty (fetched list_dividends None (unique tickers))
                            then Parquet (fetched list_dividends None (unique tickers)) else disk),
                requests = map (\<lambda>t. (t, None)) (unique tickers)\<rparr>"
    using assms by (rule update_dividend_history_no_snapshot)
next
  fix out
  assume "update_split_history truediv list_splits tickers disk = Inr out"
  then have "import_splits truediv list_splits (unique tickers) disk = Inr out"
    using assms by (simp add: update_split_history_no_snapshot)
  then show "returned out =
               (if df_empty (fetched list_splits None (unique tickers))
                then fetched list_splits None (unique tickers)
                else map (\<lambda>r. assign r ''ratio''
                                 (truediv (get r ''split_to'') (get r ''split_from'')))
                       (fetched list_splits None (unique tickers)))"
    by (rule import_splits_returned)
next
  fix out
  assume "update_ticker_events get_ticker_events figis disk = Inr out"
  then have "initial_events get_ticker_events (unique (dropna figis)) disk = Inr out"
    using assms by (simp add: update_ticker_events_no_snapshot)
  then show "returned out = keep_first (key_of event_subset) []
               (map (dated ''date'')
                  (fetched_events get_ticker_events (\<lambda>ev figi. all_events ev)
                     (unique (dropna figis))))"
    by (rule initial_events_returned)
qed

theorem no_snapshot_returns_fetched_witness:
  "update_dividend_history (one_feed (Str ''AAPL'') [aapl_jan, aapl_jan_revised, aapl_apr])
       [Str ''AAPL''] NoFile =
     Inr \<lparr>returned = [aapl_jan, aapl_jan_revised, aapl_apr],
          snapshot = Parquet [aapl_jan, aapl_jan_revised, aapl_apr],
          requests = [(Str ''AAPL'', None)]\<rparr>
   \<and> length (fetched_events events_of_meta (\<lambda>ev figi. all_events ev) [Str ''BBG000MM2P62'']) = 3
   \<and> keep_first (key_of event_subset) []
        (map (dated ''date'')
           (fetched_events events_of_meta (\<lambda>ev figi. all_events ev) [Str ''BBG000MM2P62'']))
      = [fb_stored, event_stored]"
proof -
  have u: "unique [Str ''AAPL''] = [Str ''AAPL'']"
    and v: "unique (dropna [Str ''BBG000MM2P62'']) = [Str ''BBG000MM2P62'']"
    by (simp_all add: unique_def dropna_def)
  have f: "fetched (one_feed (Str ''AAPL'') [aapl_jan, aapl_jan_revised, aapl_apr]) None
             [Str ''AAPL''] = [aapl_jan, aapl_jan_revised, aapl_apr]"
    by (simp add: fetched_one_feed)
  have e: "\<not> df_empty [aapl_jan, aapl_jan_revised, aapl_apr]"
    by (simp add: df_empty_def aapl_jan_def)
  note t = no_snapshot_returns_fetched[OF no_snapshot_NoFile,
      of "one_feed (Str ''AAPL'') [aapl_jan, aapl_jan_revised, aapl_apr]" "[Str ''AAPL'']"
         _ _ events_of_meta "[Str ''BBG000MM2P62'']"]
  have 1: "update_dividend_history (one_feed (Str ''AAPL'') [aapl_jan, aapl_jan_revised, aapl_apr])
       [Str ''AAPL''] NoFile =
     Inr \<lparr>returned = [aapl_jan, aapl_jan_revised, aapl_apr],
          snapshot = Parquet [aapl_jan, aapl_jan_revised, aapl_apr],
          requests = [(Str ''AAPL'', None)]\<rparr>"
    using t e by (simp add: u f)
  have 2: "keep_first (key_of event_subset) []
        (map (dated ''date'')
           (fetched_events events_of_meta (\<lambda>ev figi. all_events ev) [Str ''BBG000MM2P62'']))
      = [fb_stored, event_stored]"
    using t events_run_example by (simp add: v)
  have 3: "length (fetched_events events_of_meta (\<lambda>ev figi. all_events ev)
             [Str ''BBG000MM2P62'']) = 3"
    by (simp add: fetched_events_meta)
  show ?thesis using 1 2 3 by simp
qed

section \<open>Existing records that a merge leaves alone\<close>

lemma merge_splits_Inr:
  assumes "merge_splits truediv S F disk = Inr (R, disk')" and "F \<noteq> []"
  shows "\<exists>N. R = keep_first (key_of split_subset) [] (map (dated ''execution_date'') S @ N)"
proof -
  from assms obtain N existing' where
    e: "column_to_datetime ''execution_date'' S = Inr existing'"
    and d: "drop_duplicates split_subset (existing' @ N) = Inr R"
    unfolding merge_splits_def
    by (auto split: sum.splits if_splits)
  have "existing' = map (dated ''execution_date'') S"
    using e by (rule column_to_datetime_map)
  moreover have "R = keep_first (key_of split_subset) [] (existing' @ N)"
    using d by (auto simp: drop_duplicates_def split: if_splits)
  ultimately show ?thesis by blast
qed

lemma convert_both_map:
  "convert_both cols new ex = Inr (new', ex') \<Longrightarrow>
     new' = map (fold dated cols) new \<and> ex' = map (fold dated cols) ex"
proof (induction cols arbitrary: new ex)
  case Nil
  then show ?case by simp
next
  case (Cons c cols)
  from Cons.prems obtain n1 e1 where
    n: "(if has_column new c then column_to_datetime c new else Inr new) = Inr n1"
    and e: "(if has_column ex c then column_to_datetime c ex else Inr ex) = Inr e1"
    and r: "convert_both cols n1 e1 = Inr (new', ex')"
    by (auto split: sum.splits)
  have "n1 = map (dated c) new" using n by (rule guarded_to_datetime)
  moreover have "e1 = map (dated c) ex" using e by (rule guarded_to_datetime)
  ultimately show ?case using Cons.IH[OF r] by simp
qed

lemma get_fold_dated: "c' \<notin> set cols \<Longrightarrow> get (fold dated cols r) c' = get r c'"
  by (induction cols arbitrary: r) (auto simp: get_dated_other)

lemma set_unique: "set (unique vs) = set vs"
  using keep_first_keys[of "\<lambda>v. v" "[]" vs] by (simp add: unique_def)

lemma merge_ipos_keeps:
  assumes "merge_ipos S F disk = Inr (R, disk')" and "F \<noteq> []" and "s \<in> set S"
    and "get s ''ticker'' \<notin> set (column F ''ticker'')"
  shows "fold dated date_columns s \<in> set R"
proof -
  from assms(1,2) obtain new' ex' where
    c: "convert_both date_columns F S = Inr (new', ex')"
    and R: "R = (if has_column new' ''ticker'' \<and> has_column ex' ''ticker''
                 then filter (\<lambda>r. get r ''ticker'' \<notin> set (unique (column new' ''ticker''))) ex' @ new'
                 else ex')"
    unfolding merge_ipos_def
    by (auto simp: Let_def split: sum.splits if_splits)
  let ?d = "fold dated date_columns"
  have n: "new' = map ?d F" and e: "ex' = map ?d S"
    using convert_both_map[OF c] by blast+
  have t: "\<And>r. get (?d r) ''ticker'' = get r ''ticker''"
    by (rule get_fold_dated) (simp add: date_columns_def)
  have "column new' ''ticker'' = column F ''ticker''"
    by (simp add: n column_def t)
  then have "get (?d s) ''ticker'' \<notin> set (unique (column new' ''ticker''))"
    using assms(4) by (simp add: set_unique t)
  moreover have "?d s \<in> set ex'" using assms(3) e by simp
  ultimately show ?thesis using R by simp
qed

lemma first_of_key_kept:
  assumes "K x \<notin> K ` set pre"
  shows "x \<in> set (keep_first K [] (pre @ x # post))"
proof -
  have "filter (\<lambda>r. K r = K x) pre = []"
    using assms by (auto simp: filter_empty_conv image_iff)
  then have "filter (\<lambda>r. K r = K x) (keep_first K [] (pre @ x # post)) = [x]"
    by (simp add: keep_first_filter)
  then have "x \<in> set (filter (\<lambda>r. K r = K x) (keep_first K [] (pre @ x # post)))"
    by simp
  then show ?thesis by simp
qed

lemma first_of_key_survives:
  assumes "R = keep_first K [] (map d (pre @ s # post) @ N)"
    and "K (d s) \<notin> set (map K (map d pre))"
  shows "d s \<in> set R"
proof -
  have "K (d s) \<notin> K ` set (map d pre)" using assms(2) by (simp add: image_image)
  then have "d s \<in> set (keep_first K [] (map d pre @ d s # (map d post @ N)))"
    by (rule first_of_key_kept)
  then show ?thesis using assms(1) by simp
qed

lemma fold_dated_id:
  "\<forall>c\<in>set cols. to_datetime (get r c) = Inr (get r c) \<Longrightarrow> fold dated cols r = r"
  by (induction cols) (simp_all add: dated_id)

lemma merge_written_then_apr:
  "merge_dividends [aapl_jan, aapl_jan_revised] [aapl_apr] disk
     = Inr ([aapl_jan_stored, aapl_apr_stored], Parquet [aapl_jan_stored, aapl_apr_stored])"
  by (simp add: merge_dividends_def aapl_jan_def aapl_jan_revised_def aapl_jan_stored_def
      aapl_apr_def aapl_apr_stored_def dividend_subset_def frame_defs
      parse_2024_01_10 parse_2024_04_10)

lemma from_date_written:
  "from_date ''ex_dividend_date'' [aapl_jan, aapl_jan_revised] = Inr ''2024-01-03''"
  by (simp add: from_date_def aapl_jan_def aapl_jan_revised_def frame_defs parse_2024_01_10
      strftime_738888)

lemma dated_aapl_jan: "dated ''ex_dividend_date'' aapl_jan = aapl_jan_stored"
  by (simp add: dated_def aapl_jan_def aapl_jan_stored_def get_def parse_2024_01_10)

text \<open>
  C5, as stated, fails. \<^verbatim>\<open>drop_duplicates\<close> runs over the concatenation of the existing
  and the fetched rows, so it also drops an existing row that repeats the key of an
  earlier existing row, whatever was fetched; and the merge reads the date column of the
  existing rows, so a row stored with a text date does not come back as it was. Here the
  snapshot is the one that the initial import writes for two fetched rows with one key.
  The next run fetches the April dividend, which has another key: the second stored row
  is dropped, and the first one comes back with its date as a timestamp.
\<close>

theorem unrelated_record_survives_counterexample:
  "update_dividend_history (one_feed (Str ''AAPL'') [aapl_jan, aapl_jan_revised])
       [Str ''AAPL''] NoFile =
     Inr \<lparr>returned = [aapl_jan, aapl_jan_revised],
          snapshot = Parquet [aapl_jan, aapl_jan_revised],
          requests = [(Str ''AAPL'', None)]\<rparr>
   \<and> update_dividend_history (one_feed (Str ''AAPL'') [aapl_apr]) [Str ''AAPL'']
       (Parquet [aapl_jan, aapl_jan_revised]) =
     Inr \<lparr>returned = [aapl_jan_stored, aapl_apr_stored],
          snapshot = Parquet [aapl_jan_stored, aapl_apr_stored],
          requests = [(Str ''AAPL'', Some ''2024-01-03'')]\<rparr>
   \<and> key_of dividend_subset aapl_jan_revised \<noteq> key_of dividend_subset aapl_apr
   \<and> key_of dividend_subset (dated ''ex_dividend_date'' aapl_jan_revised)
       \<noteq> key_of dividend_subset (dated ''ex_dividend_date'' aapl_apr)
   \<and> aapl_jan_revised \<notin> set [aapl_jan_stored, aapl_apr_stored]
   \<and> dated ''ex_dividend_date'' aapl_jan_revised \<notin> set [aapl_jan_stored, aapl_apr_stored]
   \<and> aapl_jan \<notin> set [aapl_jan_stored, aapl_apr_stored]"
proof -
  have 1: "update_dividend_history (one_feed (Str ''AAPL'') [aapl_jan, aapl_jan_revised])
       [Str ''AAPL''] NoFile =
     Inr \<lparr>returned = [aapl_jan, aapl_jan_revised],
          snapshot = Parquet [aapl_jan, aapl_jan_revised],
          requests = [(Str ''AAPL'', None)]\<rparr>"
    by (simp add: update_dividend_history_import unique_def fetched_one_feed df_empty_def
        aapl_jan_def)
  have e: "\<not> df_empty [aapl_jan, aapl_jan_revised]"
    by (simp add: df_empty_def aapl_jan_def)
  have u: "unique [Str ''AAPL''] = [Str ''AAPL'']"
    by (simp add: unique_def)
  have 2: "update_dividend_history (one_feed (Str ''AAPL'') [aapl_apr]) [Str ''AAPL'']
       (Parquet [aapl_jan, aapl_jan_revised]) =
     Inr \<lparr>returned = [aapl_jan_stored, aapl_apr_stored],
          snapshot = Parquet [aapl_jan_stored, aapl_apr_stored],
          requests = [(Str ''AAPL'', Some ''2024-01-03'')]\<rparr>"
    by (simp add: update_dividend_history_merge[OF e from_date_written] u fetched_one_feed
        merge_written_then_apr)
  have 3: "key_of dividend_subset aapl_jan_revised \<noteq> key_of dividend_subset aapl_apr"
    by (simp add: key_of_def dividend_subset_def aapl_jan_revised_def aapl_apr_def get_def)
  have 4: "key_of dividend_subset (dated ''ex_dividend_date'' aapl_jan_revised)
       \<noteq> key_of dividend_subset (dated ''ex_dividend_date'' aapl_apr)"
    by (simp add: key_of_def dividend_subset_def aapl_jan_revised_def aapl_apr_def get_def
        dated_def parse_2024_01_10 parse_2024_04_10)
  have 5: "aapl_jan_revised \<notin> set [aapl_jan_stored, aapl_apr_stored]"
    by (simp add: aapl_jan_revised_def aapl_jan_stored_def aapl_apr_stored_def)
  have 6: "dated ''ex_dividend_date'' aapl_jan_revised \<notin> set [aapl_jan_stored, aapl_apr_stored]"
    by (simp add: aapl_jan_revised_def aapl_jan_stored_def aapl_apr_stored_def get_def
        dated_def parse_2024_01_10)
  have 7: "aapl_jan \<notin> set [aapl_jan_stored, aapl_apr_stored]"
    by (simp add: aapl_jan_def aapl_jan_stored_def aapl_apr_stored_def)
  show ?thesis using 1 2 3 4 5 6 7 by blast
qed

text \<open>
  C5, amended. A record \<open>s\<close> of the existing snapshot is in the merged frame: as it is
  when nothing was fetched, and otherwise with its date columns read by
  \<^verbatim>\<open>pd.to_datetime\<close> (\<open>conv\<close>), which leaves the cells of every other column as they are
  and leaves the whole record as it is when its date cells already hold timestamps or
  are missing. For the pipelines that merge with \<^verbatim>\<open>drop_duplicates\<close> (dividends, splits,
  ticker events) this holds of every record that is the first of the snapshot with its
  key (keys compared after the dates are read), whatever was fetched; for the IPO
  pipeline it holds of every record whose ticker is not among the fetched tickers.
\<close>

theorem existing_records_survive:
  assumes "S = earlier @ s # later"
    and "(merge_dividends S F disk = Inr (R, disk') \<and> conv = dated ''ex_dividend_date''
            \<and> dcols = [''ex_dividend_date'']
            \<and> key_of dividend_subset (conv s)
                \<notin> set (map (key_of dividend_subset) (map conv earlier)))
       \<or> (merge_splits truediv S F disk = Inr (R, disk') \<and> conv = dated ''execution_date''
            \<and> dcols = [''execution_date'']
            \<and> key_of split_subset (conv s)
                \<notin> set (map (key_of split_subset) (map conv earlier)))
       \<or> (merge_events S F disk = Inr (R, disk') \<and> conv = dated ''date''
            \<and> dcols = [''date'']
            \<and> key_of event_subset (conv s)
                \<notin> set (map (key_of event_subset) (map conv earlier)))
       \<or> (merge_ipos S F disk = Inr (R, disk') \<and> conv = fold dated date_columns
            \<and> dcols = date_columns
            \<and> get s ''ticker'' \<notin> set (column F ''ticker''))"
  shows "(if F = [] then s else conv s) \<in> set R
         \<and> (\<forall>c. c \<notin> set dcols \<longrightarrow> get (conv s) c = get s c)
         \<and> ((\<forall>c\<in>set dcols. to_datetime (get s c) = Inr (get s c)) \<longrightarrow> conv s = s)"
proof -
  have conv: "conv = fold dated dcols"
    using assms(2) by auto
  have other: "\<forall>c. c \<notin> set dcols \<longrightarrow> get (conv s) c = get s c"
    by (simp add: conv get_fold_dated)
  have same: "(\<forall>c\<in>set dcols. to_datetime (get s c) = Inr (get s c)) \<longrightarrow> conv s = s"
    by (simp add: conv fold_dated_id)
  have "(if F = [] then s else conv s) \<in> set R"
  proof (cases "F = []")
    case True
    then have "R = S"
      using assms(2)
      by (auto simp: merge_dividends_def merge_splits_def merge_events_def merge_ipos_def)
    then show ?thesis using True assms(1) by simp
  next
    case False
    have sS: "s \<in> set S" using assms(1) by simp
    from assms(2) consider
      (div) "merge_dividends S F disk = Inr (R, disk')" "conv = dated ''ex_dividend_date''"
            "key_of dividend_subset (conv s)
               \<notin> set (map (key_of dividend_subset) (map conv earlier))"
    | (spl) "merge_splits truediv S F disk = Inr (R, disk')" "conv = dated ''execution_date''"
            "key_of split_subset (conv s) \<notin> set (map (key_of split_subset) (map conv earlier))"
    | (evt) "merge_events S F disk = Inr (R, disk')" "conv = dated ''date''"
            "key_of event_subset (conv s) \<notin> set (map (key_of event_subset) (map conv earlier))"
    | (ipo) "merge_ipos S F disk = Inr (R, disk')" "conv = fold dated date_columns"
            "get s ''ticker'' \<notin> set (column F ''ticker'')"
      by blast
    then have "conv s \<in> set R"
    proof cases
      case div
      have "R = keep_first (key_of dividend_subset) []
                  (map conv (earlier @ s # later) @ map conv F)"
        using merge_dividends_Inr[OF div(1) False] div(2) assms(1) by simp
      then show ?thesis using div(3) by (rule first_of_key_survives)
    next
      case spl
      obtain N where "R = keep_first (key_of split_subset) []
                            (map conv (earlier @ s # later) @ N)"
        using merge_splits_Inr[OF spl(1) False] spl(2) assms(1) by blast
      then show ?thesis using spl(3) by (rule first_of_key_survives)
    next
      case evt
      have "R = keep_first (key_of event_subset) []
                  (map conv (earlier @ s # later) @ map conv F)"
        using merge_events_Inr[OF evt(1) False] evt(2) assms(1) by simp
      then show ?thesis using evt(3) by (rule first_of_key_survives)
    next
      case ipo
      show ?thesis
        using merge_ipos_keeps[OF ipo(1) False sS ipo(3)] ipo(2) by simp
    qed
    then show ?thesis using False by simp
  qed
  then show ?thesis using other same by blast
qed

theorem existing_records_survive_witness:
  "merge_dividends [aapl_jan, aapl_jan_revised] [aapl_apr] NoFile
     = Inr ([aapl_jan_stored, aapl_apr_stored], Parquet [aapl_jan_stored, aapl_apr_stored])
   \<and> dated ''ex_dividend_date'' aapl_jan = aapl_jan_stored
   \<and> dated ''ex_dividend_date'' aapl_jan \<in> set [aapl_jan_stored, aapl_apr_stored]
   \<and> get (dated ''ex_dividend_date'' aapl_jan) ''pay_date'' = get aapl_jan ''pay_date''
   \<and> merge_ipos [ipo_stored] [ipo_pending, ipo_priced] NoFile =
       Inr ([ipo_stored, ipo_pending_dated, ipo_priced_dated],
            Parquet [ipo_stored, ipo_pending_dated, ipo_priced_dated])
   \<and> fold dated date_columns ipo_stored = ipo_stored
   \<and> ipo_stored \<in> set [ipo_stored, ipo_pending_dated, ipo_priced_dated]"
proof -
  have a: "(if [aapl_apr] = [] then aapl_jan else dated ''ex_dividend_date'' aapl_jan)
             \<in> set [aapl_jan_stored, aapl_apr_stored]
         \<and> (\<forall>c. c \<notin> set [''ex_dividend_date'']
               \<longrightarrow> get (dated ''ex_dividend_date'' aapl_jan) c = get aapl_jan c)
         \<and> ((\<forall>c\<in>set [''ex_dividend_date'']. to_datetime (get aapl_jan c) = Inr (get aapl_jan c))
               \<longrightarrow> dated ''ex_dividend_date'' aapl_jan = aapl_jan)"
    by (rule existing_records_survive[where S = "[aapl_jan, aapl_jan_revised]"
          and earlier = "[]" and later = "[aapl_jan_revised]" and disk = NoFile
          and disk' = "Parquet [aapl_jan_stored, aapl_apr_stored]"
          and truediv = "\<lambda>a b. Null"])
       (simp_all add: merge_written_then_apr)
  have t: "get ipo_stored ''ticker'' \<notin> set (column [ipo_pending, ipo_priced] ''ticker'')"
    by (simp add: column_def ipo_stored_def ipo_pending_def ipo_priced_def get_def)
  have b: "(if [ipo_pending, ipo_priced] = [] then ipo_stored
            else fold dated date_columns ipo_stored)
             \<in> set [ipo_stored, ipo_pending_dated, ipo_priced_dated]
         \<and> (\<forall>c. c \<notin> set date_columns
               \<longrightarrow> get (fold dated date_columns ipo_stored) c = get ipo_stored c)
         \<and> ((\<forall>c\<in>set date_columns. to_datetime (get ipo_stored c) = Inr (get ipo_stored c))
               \<longrightarrow> fold dated date_columns ipo_stored = ipo_stored)"
    by (rule existing_records_survive[where S = "[ipo_stored]"
          and earlier = "[]" and later = "[]" and disk = NoFile
          and disk' = "Parquet [ipo_stored, ipo_pending_dated, ipo_priced_dated]"
          and truediv = "\<lambda>a b. Null"])
       (simp_all add: merge_ipo_example t)
  have c: "\<forall>c\<in>set date_columns. to_datetime (get ipo_stored c) = Inr (get ipo_stored c)"
    by (simp add: date_columns_def ipo_stored_def get_def)
  have 1: "dated ''ex_dividend_date'' aapl_jan \<in> set [aapl_jan_stored, aapl_apr_stored]"
    using a by simp
  have 2: "get (dated ''ex_dividend_date'' aapl_jan) ''pay_date'' = get aapl_jan ''pay_date''"
    using a by simp
  have 3: "fold dated date_columns ipo_stored = ipo_stored"
    using b c by blast
  have 4: "ipo_stored \<in> set [ipo_stored, ipo_pending_dated, ipo_priced_dated]"
    by simp
  show ?thesis
    using 1 2 3 4 merge_written_then_apr[of NoFile] merge_ipo_example[of NoFile] dated_aapl_jan
    by blast
qed

section \<open>The fetch-from date of a run\<close>

lemma series_max_Max:
  assumes "timestamps dates \<noteq> []"
  shows "series_max dates = Ts (Max (set (timestamps dates)))"
proof (cases "timestamps dates")
  case Nil
  then show ?thesis using assms by simp
next
  case (Cons t ts)
  have "fold max ts t = Max (set (t # ts))"
    by (simp only: Max.set_eq_fold)
  then show ?thesis using Cons by (simp add: series_max_def)
qed

lemma from_date_Max:
  assumes "has_column S c" and "series_to_datetime (column S c) = Inr dates"
    and "timestamps dates \<noteq> []"
  shows "from_date c S = Inr (strftime (Max (set (timestamps dates)) - lookback_days))"
  using assms by (simp add: from_date_def series_max_Max)


lemma apr_10_minus_7: "strftime (ymd2ord 2024 4 10 - lookback_days) = ''2024-04-03''"
  by (simp add: calendar_defs lookback_days_def)

text \<open>
  C6. For a snapshot whose watermark column reads as dates, with at least one date in
  it, the fetch-from date is the text of the greatest date less the lookback of 7 days;
  for the greatest date 2024-04-10 that is \<^verbatim>\<open>2024-04-03\<close>. An incremental run of the
  dividends pipeline sends this date as the lower bound of every request; a run without
  a snapshot (absent, unreadable or empty) never raises and sends no lower bound.
\<close>

theorem fetch_from_is_max_minus_lookback:
  "(has_column S c \<and> series_to_datetime (column S c) = Inr dates \<and> timestamps dates \<noteq> []
      \<longrightarrow> from_date c S = Inr (strftime (Max (set (timestamps dates)) - lookback_days)))
   \<and> lookback_days = 7
   \<and> strftime (ymd2ord 2024 4 10 - lookback_days) = ''2024-04-03''
   \<and> (\<not> df_empty S \<and> update_dividend_history list_dividends tickers (Parquet S) = Inr out
      \<longrightarrow> (\<exists>fd. from_date ''ex_dividend_date'' S = Inr fd
                \<and> requests out = map (\<lambda>t. (t, Some fd)) (unique tickers)))
   \<and> (no_snapshot disk
      \<longrightarrow> (\<exists>out'. update_dividend_history list_dividends tickers disk = Inr out'
                \<and> requests out' = map (\<lambda>t. (t, None)) (unique tickers)))"
proof (intro conjI impI)
  assume "has_column S c \<and> series_to_datetime (column S c) = Inr dates \<and> timestamps dates \<noteq> []"
  then show "from_date c S = Inr (strftime (Max (set (timestamps dates)) - lookback_days))"
    using from_date_Max by blast
next
  show "lookback_days = 7" by (simp add: lookback_days_def)
next
  show "strftime (ymd2ord 2024 4 10 - lookback_days) = ''2024-04-03''"
    by (rule apr_10_minus_7)
next
  assume a: "\<not> df_empty S \<and> update_dividend_history list_dividends tickers (Parquet S) = Inr out"
  then obtain fd where f: "from_date ''ex_dividend_date'' S = Inr fd"
    by (cases "from_date ''ex_dividend_date'' S")
       (auto simp: update_dividend_history_def read_existing_def)
  then have "requests out = map (\<lambda>t. (t, Some fd)) (unique tickers)"
    using a update_dividend_history_merge[of S fd list_dividends tickers]
    by (auto split: sum.splits)
  then show "\<exists>fd. from_date ''ex_dividend_date'' S = Inr fd
                \<and> requests out = map (\<lambda>t. (t, Some fd)) (unique tickers)"
    using f by blast
next
  assume "no_snapshot disk"
  then show "\<exists>out'. update_dividend_history list_dividends tickers disk = Inr out'
                \<and> requests out' = map (\<lambda>t. (t, None)) (unique tickers)"
    by (simp add: update_dividend_history_no_snapshot)
qed

lemma dates_jan_apr:
  "series_to_datetime (column [aapl_jan, aapl_apr] ''ex_dividend_date'')
     = Inr [Ts 738895, Ts 738986]"
  by (simp add: column_def get_def aapl_jan_def aapl_apr_def parse_2024_01_10 parse_2024_04_10)

theorem fetch_from_is_max_minus_lookback_witness:
  "from_date ''ex_dividend_date'' [aapl_jan, aapl_apr] = Inr ''2024-04-03''
   \<and> Max (set (timestamps [Ts 738895, Ts 738986])) = ymd2ord 2024 4 10
   \<and> update_dividend_history (\<lambda>t gte. Exhausted) [Str ''AAPL''] (Parquet [aapl_jan, aapl_apr])
       = Inr \<lparr>returned = [aapl_jan, aapl_apr], snapshot = Parquet [aapl_jan, aapl_apr],
              requests = [(Str ''AAPL'', Some ''2024-04-03'')]\<rparr>
   \<and> update_dividend_history (\<lambda>t gte. Exhausted) [Str ''AAPL''] NoFile
       = Inr \<lparr>returned = [], snapshot = NoFile, requests = [(Str ''AAPL'', None)]\<rparr>"
proof -
  have h: "has_column [aapl_jan, aapl_apr] ''ex_dividend_date''"
    by (simp add: has_column_def aapl_jan_def)
  have m: "Max (set (timestamps [Ts 738895, Ts 738986])) = ymd2ord 2024 4 10"
    by (simp add: calendar_defs)
  have ne: "timestamps [Ts 738895, Ts 738986] \<noteq> []" by simp
  note t = fetch_from_is_max_minus_lookback[of "[aapl_jan, aapl_apr]" "''ex_dividend_date''"
      "[Ts 738895, Ts 738986]" "\<lambda>t gte. Exhausted" "[Str ''AAPL'']" _ NoFile]
  have 1: "from_date ''ex_dividend_date'' [aapl_jan, aapl_apr] = Inr ''2024-04-03''"
    using t h dates_jan_apr ne by (simp add: lookback_days_def strftime_738979)
  have e: "\<not> df_empty [aapl_jan, aapl_apr]"
    by (simp add: df_empty_def aapl_jan_def)
  have u: "unique [Str ''AAPL''] = [Str ''AAPL'']" by (simp add: unique_def)
  have 3: "update_dividend_history (\<lambda>t gte. Exhausted) [Str ''AAPL''] (Parquet [aapl_jan, aapl_apr])
       = Inr \<lparr>returned = [aapl_jan, aapl_apr], snapshot = Parquet [aapl_jan, aapl_apr],
              requests = [(Str ''AAPL'', Some ''2024-04-03'')]\<rparr>"
    by (simp add: update_dividend_history_merge[OF e 1] u fetched_def merge_dividends_def)
  have 4: "update_dividend_history (\<lambda>t gte. Exhausted) [Str ''AAPL''] NoFile
       = Inr \<lparr>returned = [], snapshot = NoFile, requests = [(Str ''AAPL'', None)]\<rparr>"
    by (simp add: update_dividend_history_import u fetched_def df_empty_def)
  show ?thesis using 1 m 3 4 by blast
qed

section \<open>What an incremental run asks the vendor\<close>































section \<open>A snapshot file that cannot be read\<close>








section \<open>A fetch that raises\<close>























section \<open>Which events an incremental run keeps\<close>





end
